theory Spec2Isabelle
  imports Main "HOL-Library.Sublist"
begin

section \<open>Python values and the built-ins the sources rely on\<close>

text \<open>
  The configuration values and CSV cells handled by the sources are \<open>None\<close>, booleans,
  integers, strings and lists of strings (the input shapes).  Characters are read as code
  points below 256.
\<close>

datatype pyval = PyNone | PyBool bool | PyInt int | PyStr string | PyList "string list"

text \<open>Truth value of an object, as \<open>if x:\<close> and \<open>x or y\<close> test it.\<close>

fun truthy :: "pyval \<Rightarrow> bool" where
  "truthy PyNone = False"
| "truthy (PyBool b) = b"
| "truthy (PyInt n) = (n \<noteq> 0)"
| "truthy (PyStr s) = (s \<noteq> [])"
| "truthy (PyList xs) = (xs \<noteq> [])"

text \<open>
  \<open>str.find(sub)\<close>: the lowest index at which \<open>sub\<close> occurs, or \<open>-1\<close> when it does
  not occur.
\<close>

fun find_from :: "string \<Rightarrow> string \<Rightarrow> int \<Rightarrow> int" where
  "find_from sub [] i = (if sub = [] then i else - 1)"
| "find_from sub (c # cs) i =
     (if prefix sub (c # cs) then i else find_from sub cs (i + 1))"

definition py_find :: "string \<Rightarrow> string \<Rightarrow> int" where
  "py_find s sub = find_from sub s 0"

text \<open>White space as \<open>str.split()\<close>, \<open>str.strip()\<close> and \<open>int()\<close> see it.\<close>

definition is_space :: "char \<Rightarrow> bool" where
  "is_space c =
     (let n = (of_char c :: int)
      in (9 \<le> n \<and> n \<le> 13) \<or> (28 \<le> n \<and> n \<le> 32) \<or> n = 133 \<or> n = 160)"

text \<open>\<open>s.replace("=", " ")\<close>.\<close>

definition replace_eq :: "string \<Rightarrow> string" where
  "replace_eq s = map (\<lambda>c. if c = CHR ''='' then CHR '' '' else c) s"

text \<open>\<open>s.split()\<close>: the maximal runs of non-space characters, in order.\<close>

fun split_acc :: "string \<Rightarrow> string \<Rightarrow> string list" where
  "split_acc [] word = (if word = [] then [] else [word])"
| "split_acc (c # cs) word =
     (if is_space c
      then (if word = [] then split_acc cs [] else word # split_acc cs [])
      else split_acc cs (word @ [c]))"

definition split_ws :: "string \<Rightarrow> string list" where
  "split_ws s = split_acc s []"

text \<open>\<open>str(n)\<close> for an integer: the decimal digits, after a minus sign when negative.\<close>

definition digit_char :: "int \<Rightarrow> char" where
  "digit_char d = char_of (48 + d)"

function str_pos :: "int \<Rightarrow> string" where
  "str_pos n = (if n < 10 then [digit_char n] else str_pos (n div 10) @ [digit_char (n mod 10)])"
  by pat_completeness auto
termination
  by (relation "measure nat") auto

definition str_int :: "int \<Rightarrow> string" where
  "str_int i = (if i < 0 then CHR ''-'' # str_pos (- i) else str_pos i)"


section \<open>Exceptions\<close>

text \<open>
  The three places that raise \<open>ModelNavigatorException\<close> build these messages:
  \<^item> \<open>RunFailed cmd rc out\<close>: "Running perf_analyzer with {cmd} failed with exit status
    {rc} : {out}";
  \<^item> \<open>NoValidRequests n\<close>: "Ran perf_analyzer {n} times, but no valid requests recorded.";
  \<^item> \<open>OutputBeforeRun\<close>: "Attempted to get perf_analyzer outputwithout calling run first."
\<close>

datatype mn_exception =
    RunFailed "string list" int "string option"
  | NoValidRequests nat
  | OutputBeforeRun

datatype error =
    ModelNavigatorException mn_exception
  | CalledProcessError int "string list" "string option"
  | TimeoutExpired "string list" int
  | TypeError
  | AttributeError
  | ValueError
  | FileNotFoundError
  | SystemExit int


section \<open>The configuration\<close>

text \<open>
  Modelled from the spec: \<open>PerfAnalyzerConfig\<close>, whose class is not among the sources.
  The spec describes it as a mutable mapping from parameter name to value in which a
  parameter can be unset; reading an unset parameter gives \<open>None\<close>, which is what
  \<open>run\<close> tests with \<open>is None\<close>.
\<close>

type_synonym config = "string \<Rightarrow> pyval"

definition PerfAnalyzerConfig :: config where
  "PerfAnalyzerConfig = (\<lambda>k. PyNone)"

definition config_get :: "config \<Rightarrow> string \<Rightarrow> pyval" where
  "config_get c k = c k"

definition config_set :: "config \<Rightarrow> string \<Rightarrow> pyval \<Rightarrow> config" where
  "config_set c k v = c(k := v)"

text \<open>\<open>v + d\<close> for an integer \<open>d\<close>: defined on integers and booleans, a \<open>TypeError\<close> otherwise.\<close>

fun py_add_int :: "pyval \<Rightarrow> int \<Rightarrow> error + pyval" where
  "py_add_int (PyInt n) d = Inr (PyInt (n + d))"
| "py_add_int (PyBool b) d = Inr (PyInt ((if b then 1 else 0) + d))"
| "py_add_int PyNone d = Inl TypeError"
| "py_add_int (PyStr s) d = Inl TypeError"
| "py_add_int (PyList xs) d = Inl TypeError"


section \<open>The external process\<close>

text \<open>
  One run of the benchmarking child under the analyzer's time limit either exits with a
  status after writing some lines to the captured stream, or is still running when the
  limit expires.  The world gives the behaviour of the n-th process started, as a function
  of its argument vector, and renders a configuration to the text of its command-line
  flags (\<open>PerfAnalyzerConfig.to_cli_string\<close>, not among the sources).  The list of
  launches is the trace of processes started so far.
\<close>

datatype proc_result = Exited int "string list" | TimedOut "string list"

fun captured :: "proc_result \<Rightarrow> string list" where
  "captured (Exited rc ls) = ls"
| "captured (TimedOut ls) = ls"

text \<open>
  A launch records one process started: its argument vector, what the child did, and the
  exception with which the call that started it returned, if any.
\<close>

datatype launch =
  Launch (l_argv: "string list") (l_result: proc_result) (l_raised: "error option")

record world =
  to_cli_string :: "config \<Rightarrow> string"
  proc :: "nat \<Rightarrow> string list \<Rightarrow> proc_result"

fun raised_of :: "error + 'a \<Rightarrow> error option" where
  "raised_of (Inl e) = Some e"
| "raised_of (Inr x) = None"

text \<open>
  \<open>subprocess.check_output(command, stderr=STDOUT, encoding="utf-8", timeout=t)\<close>: the
  captured text on exit status 0, \<open>CalledProcessError\<close> on another status,
  \<open>TimeoutExpired\<close> when the limit expires.
\<close>

definition check_output ::
  "world \<Rightarrow> string list \<Rightarrow> int \<Rightarrow> launch list \<Rightarrow> (error + string) \<times> launch list" where
  "check_output w command tmo tr =
     (let r = proc w (length tr) command;
          res = (case r of
                   Exited rc ls \<Rightarrow>
                     if rc = 0 then Inr (concat ls)
                     else Inl (CalledProcessError rc command (Some (concat ls)))
                 | TimedOut ls \<Rightarrow> Inl (TimeoutExpired command tmo))
      in (res, tr @ [Launch command r (raised_of res)]))"

text \<open>
  The exit status of the \<open>timeout\<close> utility that the streamed mode puts in front of the
  command: the child's own status, or 124 when the limit expired.
\<close>

fun wrapper_status :: "proc_result \<Rightarrow> int" where
  "wrapper_status (Exited rc ls) = rc"
| "wrapper_status (TimedOut ls) = 124"


section \<open>The execution controller: class PerfAnalyzer\<close>

text \<open>
  The attributes \<open>bin_path\<close>, \<open>_config\<close>, \<open>_output\<close>, \<open>_stream_output\<close> and
  \<open>_timeout\<close> are the fields of a record; the methods keep their names, without the
  leading underscore.
\<close>

definition MAX_INTERVAL_CHANGES :: nat where
  "MAX_INTERVAL_CHANGES = 10"

definition COUNT_INTERVAL_DELTA :: int where
  "COUNT_INTERVAL_DELTA = 50"

definition TIME_INTERVAL_DELTA :: int where
  "TIME_INTERVAL_DELTA = 2000"

record analyzer =
  pa_bin_path :: string
  pa_config :: config
  pa_output :: "string option"
  pa_stream_output :: bool
  pa_timeout :: int

text \<open>
  \<open>__init__(self, config, timeout, stream_output=False)\<close>.  An argument the caller does
  not pass is \<open>None\<close> here: \<open>timeout\<close> has no default, so leaving it out is a
  \<open>TypeError\<close>; \<open>stream_output\<close> defaults to \<open>False\<close>.
\<close>

definition PerfAnalyzer_init :: "config \<Rightarrow> int option \<Rightarrow> bool option \<Rightarrow> error + analyzer" where
  "PerfAnalyzer_init cfg timeout_arg stream_output_arg =
     (case timeout_arg of
        None \<Rightarrow> Inl TypeError
      | Some t \<Rightarrow>
          Inr \<lparr>pa_bin_path = ''perf_analyzer'', pa_config = cfg, pa_output = None,
               pa_stream_output = (case stream_output_arg of None \<Rightarrow> False | Some b \<Rightarrow> b),
               pa_timeout = t\<rparr>)"

text \<open>
  The read loop of \<open>_run_with_stream\<close>: every non-empty line read is appended to
  \<open>self._output\<close> (and echoed, which leaves no trace in the state).
\<close>

primrec read_lines :: "string list \<Rightarrow> analyzer \<Rightarrow> error + analyzer" where
  "read_lines [] s = Inr s"
| "read_lines (l # ls) s =
     (if l \<noteq> [] then
        (case pa_output s of
           None \<Rightarrow> Inl TypeError
         | Some t \<Rightarrow> read_lines ls (s\<lparr>pa_output := Some (t @ l)\<rparr>))
      else read_lines ls s)"

definition run_with_stream ::
  "world \<Rightarrow> string list \<Rightarrow> analyzer \<Rightarrow> launch list \<Rightarrow> (error + unit) \<times> analyzer \<times> launch list" where
  "run_with_stream w command s tr =
     (let commands_lst = [''timeout'', str_int (pa_timeout s)] @ command;
          r = proc w (length tr) commands_lst;
          (res, s1) =
            (case read_lines (captured r) s of
               Inl e \<Rightarrow> (Inl e, s)
             | Inr s1 \<Rightarrow>
                 (let result = wrapper_status r
                  in if result \<noteq> 0
                     then (Inl (CalledProcessError result commands_lst (pa_output s1)), s1)
                     else (Inr (), s1)))
      in (res, s1, tr @ [Launch commands_lst r (raised_of res)]))"

definition stable_msg :: string where
  "stable_msg = ''Failed to obtain stable measurement''"

definition window_msg :: string where
  "window_msg = ''Please use a larger time window''"

text \<open>
  \<open>output.find(A) or output.find(B) != -1\<close>: the comparison binds tighter than \<open>or\<close>, so
  the value is \<open>output.find(A)\<close> when that is non-zero, else the truth of
  \<open>output.find(B) != -1\<close>.
\<close>

definition faild_with_measruement_inverval :: "string option \<Rightarrow> error + pyval" where
  "faild_with_measruement_inverval output_arg =
     (case output_arg of
        None \<Rightarrow> Inl AttributeError
      | Some out \<Rightarrow>
          Inr (if truthy (PyInt (py_find out stable_msg))
               then PyInt (py_find out stable_msg)
               else PyBool (py_find out window_msg \<noteq> - 1)))"

definition increase_request_count :: "analyzer \<Rightarrow> error + analyzer" where
  "increase_request_count s =
     (case py_add_int (config_get (pa_config s) ''measurement-request-count'') COUNT_INTERVAL_DELTA of
        Inl e \<Rightarrow> Inl e
      | Inr v \<Rightarrow> Inr (s\<lparr>pa_config := config_set (pa_config s) ''measurement-request-count'' v\<rparr>))"

definition increase_time_interval :: "analyzer \<Rightarrow> error + analyzer" where
  "increase_time_interval s =
     (case py_add_int (config_get (pa_config s) ''measurement-interval'') TIME_INTERVAL_DELTA of
        Inl e \<Rightarrow> Inl e
      | Inr v \<Rightarrow> Inr (s\<lparr>pa_config := config_set (pa_config s) ''measurement-interval'' v\<rparr>))"

text \<open>
  The body of \<open>except CalledProcessError as e\<close>: \<open>Inr\<close> is the analyzer with which the
  loop goes on, \<open>Inl\<close> the exception that leaves \<open>run\<close>.
\<close>

definition on_called_process_error ::
  "int \<Rightarrow> string list \<Rightarrow> string option \<Rightarrow> analyzer \<Rightarrow> error + analyzer" where
  "on_called_process_error returncode cmd out s =
     (case faild_with_measruement_inverval out of
        Inl e \<Rightarrow> Inl e
      | Inr v \<Rightarrow>
          if truthy v then
            (if config_get (pa_config s) ''measurement-mode'' = PyNone
                \<or> config_get (pa_config s) ''measurement-mode'' = PyStr ''count_windows''
             then increase_request_count s
             else increase_time_interval s)
          else Inl (ModelNavigatorException (RunFailed cmd returncode out)))"

text \<open>The \<open>try\<close> block: one process, streamed or buffered.\<close>

definition attempt ::
  "world \<Rightarrow> string list \<Rightarrow> analyzer \<Rightarrow> launch list \<Rightarrow> (error + unit) \<times> analyzer \<times> launch list" where
  "attempt w command s tr =
     (if pa_stream_output s then run_with_stream w command s tr
      else (case check_output w command (pa_timeout s) tr of
              (Inl e, tr1) \<Rightarrow> (Inl e, s, tr1)
            | (Inr text, tr1) \<Rightarrow> (Inr (), s\<lparr>pa_output := Some text\<rparr>, tr1)))"

text \<open>\<open>for _ in range(MAX_INTERVAL_CHANGES)\<close> with \<open>n\<close> iterations left, and the \<open>raise\<close> after it.\<close>

fun run_loop ::
  "nat \<Rightarrow> world \<Rightarrow> analyzer \<Rightarrow> launch list \<Rightarrow> (error + unit) \<times> analyzer \<times> launch list" where
  "run_loop 0 w s tr =
     (Inl (ModelNavigatorException (NoValidRequests MAX_INTERVAL_CHANGES)), s, tr)"
| "run_loop (Suc n) w s tr =
     (let command = [pa_bin_path s] @ split_ws (replace_eq (to_cli_string w (pa_config s)))
      in case attempt w command s tr of
           (Inr u, s1, tr1) \<Rightarrow> (Inr (), s1, tr1)
         | (Inl e, s1, tr1) \<Rightarrow>
             (case e of
                CalledProcessError returncode cmd out \<Rightarrow>
                  (case on_called_process_error returncode cmd out s1 of
                     Inl e' \<Rightarrow> (Inl e', s1, tr1)
                   | Inr s2 \<Rightarrow> run_loop n w s2 tr1)
              | _ \<Rightarrow> (Inl e, s1, tr1)))"

definition run ::
  "world \<Rightarrow> analyzer \<Rightarrow> launch list \<Rightarrow> (error + unit) \<times> analyzer \<times> launch list" where
  "run w s tr =
     run_loop MAX_INTERVAL_CHANGES w
       (if pa_stream_output s then s\<lparr>pa_output := Some ''''\<rparr> else s) tr"

text \<open>The accessor \<open>output()\<close> (\<open>output\<close> is a reserved word here).\<close>

definition output_of :: "analyzer \<Rightarrow> error + string" where
  "output_of s =
     (case pa_output s of
        None \<Rightarrow> Inl (ModelNavigatorException OutputBeforeRun)
      | Some t \<Rightarrow> if t \<noteq> [] then Inr t else Inl (ModelNavigatorException OutputBeforeRun))"


section \<open>The benchmark driver\<close>

subsection \<open>Integer conversion\<close>

text \<open>
  \<open>int(v)\<close>: an integer is itself, a boolean is 0 or 1, a string is stripped of
  surrounding white space and must then be an optional sign followed by decimal digits,
  where single underscores may separate digits (\<open>ValueError\<close> otherwise); \<open>None\<close> and
  a list are a \<open>TypeError\<close>.
\<close>

definition is_digit :: "char \<Rightarrow> bool" where
  "is_digit c = (let n = (of_char c :: int) in 48 \<le> n \<and> n \<le> 57)"

definition digit_val :: "char \<Rightarrow> int" where
  "digit_val c = of_char c - 48"

fun parse_digits :: "string \<Rightarrow> int \<Rightarrow> int option" where
  "parse_digits [] acc = Some acc"
| "parse_digits [c] acc = (if is_digit c then Some (10 * acc + digit_val c) else None)"
| "parse_digits (c # d # ds) acc =
     (if is_digit c then parse_digits (d # ds) (10 * acc + digit_val c)
      else if c = CHR ''_'' \<and> is_digit d then parse_digits ds (10 * acc + digit_val d)
      else None)"

definition parse_unsigned :: "string \<Rightarrow> int option" where
  "parse_unsigned t =
     (case t of
        [] \<Rightarrow> None
      | c # cs \<Rightarrow> if is_digit c then parse_digits cs (digit_val c) else None)"

definition strip :: "string \<Rightarrow> string" where
  "strip s = rev (dropWhile is_space (rev (dropWhile is_space s)))"

definition parse_int :: "string \<Rightarrow> int option" where
  "parse_int s =
     (case strip s of
        [] \<Rightarrow> None
      | c # cs \<Rightarrow>
          if c = CHR ''-'' then map_option uminus (parse_unsigned cs)
          else if c = CHR ''+'' then parse_unsigned cs
          else parse_unsigned (c # cs))"

fun py_int :: "pyval \<Rightarrow> error + int" where
  "py_int (PyInt n) = Inr n"
| "py_int (PyBool b) = Inr (if b then 1 else 0)"
| "py_int (PyStr s) = (case parse_int s of None \<Rightarrow> Inl ValueError | Some n \<Rightarrow> Inr n)"
| "py_int PyNone = Inl TypeError"
| "py_int (PyList xs) = Inl TypeError"


subsection \<open>Rows of metrics\<close>

text \<open>A row is a dictionary from column name to value; \<open>r.get(f, d)\<close> reads it with a default.\<close>

type_synonym row = "string \<rightharpoonup> pyval"

definition dict_get :: "row \<Rightarrow> string \<Rightarrow> pyval \<Rightarrow> pyval" where
  "dict_get r f d = (case r f of None \<Rightarrow> d | Some v \<Rightarrow> v)"

definition avg_sum_fields :: "string list" where
  "avg_sum_fields =
     [''Client Send'', ''Network+Server Send/Recv'', ''Server Queue'', ''Server Compute'',
      ''Server Compute Input'', ''Server Compute Infer'', ''Server Compute Output'',
      ''Client Recv'']"

text \<open>The list comprehension \<open>[int(x) for x in xs]\<close>: the first conversion that fails raises.\<close>

fun int_each :: "pyval list \<Rightarrow> error + int list" where
  "int_each [] = Inr []"
| "int_each (v # vs) =
     (case py_int v of
        Inl e \<Rightarrow> Inl e
      | Inr n \<Rightarrow> (case int_each vs of Inl e \<Rightarrow> Inl e | Inr ns \<Rightarrow> Inr (n # ns)))"

definition calculate_average_latency :: "row \<Rightarrow> error + int" where
  "calculate_average_latency r =
     (case int_each (map (\<lambda>f. dict_get r f (PyInt 0)) avg_sum_fields) of
        Inl e \<Rightarrow> Inl e
      | Inr ns \<Rightarrow> Inr (sum_list ns))"

text \<open>
  The loop of \<open>update_performance_data\<close> over the rows that \<open>csv.DictReader\<close> yields:
  \<open>row = {**row, **r, "avg latency": avg_latency}\<close>.
\<close>

fun merge_rows :: "row \<Rightarrow> row list \<Rightarrow> error + row" where
  "merge_rows row [] = Inr row"
| "merge_rows row (r # rs) =
     (case calculate_average_latency r of
        Inl e \<Rightarrow> Inl e
      | Inr avg_latency \<Rightarrow> merge_rows ((row ++ r)(''avg latency'' \<mapsto> PyInt avg_latency)) rs)"

text \<open>
  The third argument of the model is what opening the file and reading it with
  \<open>csv.DictReader\<close> gives: the rows as dictionaries, or nothing when the file does not
  exist.
\<close>

definition update_performance_data ::
  "row list \<Rightarrow> int \<Rightarrow> row list option \<Rightarrow> error + row list" where
  "update_performance_data results batch_size performance_partial_file =
     (let row = [''batch_size'' \<mapsto> PyInt batch_size]
      in case performance_partial_file of
           None \<Rightarrow> Inl FileNotFoundError
         | Some reader \<Rightarrow>
             (case merge_rows row reader of
                Inl e \<Rightarrow> Inl e
              | Inr row' \<Rightarrow> Inr (results @ [row'])))"


subsection \<open>The sweep\<close>

text \<open>
  The collaborators that are not among the sources are parameters: \<open>parse_server_url\<close>,
  \<open>sort_results\<close>, and the file system as the benchmarking processes leave it
  (\<open>read_csv n path\<close> is the content of the CSV file \<open>path\<close> once \<open>n\<close> processes have
  run).  The state of a sweep is the trace of processes, the exceptions logged with
  \<open>LOGGER.error\<close> and the files removed.
\<close>

record toolkit =
  parse_server_url :: "string \<Rightarrow> error + string \<times> string \<times> int"
  sort_results :: "row list \<Rightarrow> row list"
  read_csv :: "nat \<Rightarrow> string \<Rightarrow> row list option"

record sweep_state =
  st_launches :: "launch list"
  st_logged :: "mn_exception list"
  st_removed :: "string list"

record options =
  input_shapes :: "string list option"
  profiling_data :: string
  triton_instances :: int
  server_url :: string
  measurement_window :: pyval
  shared_memory :: bool

text \<open>The dictionary \<open>params\<close> of one batch size, in insertion order.\<close>

definition build_params ::
  "string \<Rightarrow> int \<Rightarrow> options \<Rightarrow> string \<Rightarrow> string \<Rightarrow> int \<Rightarrow> string \<Rightarrow> (string \<times> pyval) list" where
  "build_params model_name batch_size opts protocol host port performance_partial_file =
     [(''model-name'', PyStr model_name),
      (''model-version'', PyInt 1),
      (''batch-size'', PyInt batch_size),
      (''max-threads'', PyInt (triton_instances opts)),
      (''concurrency'', PyInt (triton_instances opts)),
      (''threads'', PyInt (triton_instances opts)),
      (''url'', PyStr (host @ '':'' @ str_int port)),
      (''protocol'', PyStr protocol),
      (''input-data'', PyStr (profiling_data opts)),
      (''measurement-interval'', measurement_window opts),
      (''latency-report-file'', PyStr performance_partial_file),
      (''verbose'', PyBool True)]
     @ (case input_shapes opts of
          None \<Rightarrow> []
        | Some shapes \<Rightarrow> if shapes \<noteq> [] then [(''shapes'', PyList shapes)] else [])
     @ (if shared_memory opts then [(''shared-memory'', PyStr ''cuda'')] else [])"

text \<open>
  The body of the loop over the batch sizes.  The analyzer is constructed as
  \<open>PerfAnalyzer(perf_config, stream_output=True)\<close>: no \<open>timeout\<close> is passed.
\<close>

definition batch_step ::
  "toolkit \<Rightarrow> world \<Rightarrow> string \<Rightarrow> options \<Rightarrow> string \<Rightarrow> string \<Rightarrow> int \<Rightarrow> int
     \<Rightarrow> row list \<Rightarrow> sweep_state \<Rightarrow> (error + row list) \<times> sweep_state" where
  "batch_step tk w model_name opts protocol host port batch_size results st =
     (let performance_partial_file = ''triton_performance_partial_'' @ str_int batch_size @ ''.csv'';
          params = build_params model_name batch_size opts protocol host port performance_partial_file;
          perf_config = foldl (\<lambda>c (param, v). config_set c param v) PerfAnalyzerConfig params
      in case PerfAnalyzer_init perf_config None (Some True) of
           Inl e \<Rightarrow> (Inl e, st)
         | Inr perf_analyzer \<Rightarrow>
             (case run w perf_analyzer (st_launches st) of
                (Inl e, pa', tr') \<Rightarrow>
                  (case e of
                     ModelNavigatorException m \<Rightarrow>
                       (Inl (SystemExit 1), st\<lparr>st_launches := tr', st_logged := st_logged st @ [m]\<rparr>)
                   | _ \<Rightarrow> (Inl e, st\<lparr>st_launches := tr'\<rparr>))
              | (Inr u, pa', tr') \<Rightarrow>
                  (case update_performance_data results batch_size
                          (read_csv tk (length tr') performance_partial_file) of
                     Inl e \<Rightarrow> (Inl e, st\<lparr>st_launches := tr'\<rparr>)
                   | Inr results' \<Rightarrow>
                       (Inr results',
                        st\<lparr>st_launches := tr',
                           st_removed := st_removed st @ [performance_partial_file]\<rparr>))))"

fun sweep ::
  "toolkit \<Rightarrow> world \<Rightarrow> string \<Rightarrow> options \<Rightarrow> string \<Rightarrow> string \<Rightarrow> int \<Rightarrow> int list
     \<Rightarrow> row list \<Rightarrow> sweep_state \<Rightarrow> (error + row list) \<times> sweep_state" where
  "sweep tk w model_name opts protocol host port [] results st = (Inr results, st)"
| "sweep tk w model_name opts protocol host port (batch_size # rest) results st =
     (case batch_step tk w model_name opts protocol host port batch_size results st of
        (Inl e, st1) \<Rightarrow> (Inl e, st1)
      | (Inr results1, st1) \<Rightarrow> sweep tk w model_name opts protocol host port rest results1 st1)"

text \<open>
  \<open>offline_performance\<close>: the value returned on success is the sorted list handed to
  \<open>save_results\<close> and \<open>show_results\<close>.
\<close>

definition offline_performance ::
  "toolkit \<Rightarrow> world \<Rightarrow> string \<Rightarrow> int list \<Rightarrow> options \<Rightarrow> sweep_state
     \<Rightarrow> (error + row list) \<times> sweep_state" where
  "offline_performance tk w model_name batch_sizes opts st =
     (case parse_server_url tk (server_url opts) of
        Inl e \<Rightarrow> (Inl e, st)
      | Inr (protocol, host, port) \<Rightarrow>
          (case sweep tk w model_name opts protocol host port batch_sizes [] st of
             (Inl e, st1) \<Rightarrow> (Inl e, st1)
           | (Inr results, st1) \<Rightarrow> (Inr (sort_results tk results), st1)))"


section \<open>Notions used in the statements\<close>

text \<open>A value on which \<open>+=\<close> with an integer is defined.\<close>

fun is_number :: "pyval \<Rightarrow> bool" where
  "is_number (PyInt n) = True"
| "is_number (PyBool b) = True"
| "is_number PyNone = False"
| "is_number (PyStr s) = False"
| "is_number (PyList xs) = False"

text \<open>The parameter that \<open>run\<close> adapts under the configured mode holds a number.\<close>

definition adaptable :: "analyzer \<Rightarrow> bool" where
  "adaptable s =
     (if pa_config s ''measurement-mode'' = PyNone
         \<or> pa_config s ''measurement-mode'' = PyStr ''count_windows''
      then is_number (pa_config s ''measurement-request-count'')
      else is_number (pa_config s ''measurement-interval''))"

text \<open>The classifier returns a true value on the captured text of a failure.\<close>

definition classified_retryable :: "string option \<Rightarrow> bool" where
  "classified_retryable out =
     (case faild_with_measruement_inverval out of Inl e \<Rightarrow> False | Inr v \<Rightarrow> truthy v)"

text \<open>
  The spec's test for an unstable measurement, in the spec's own words: the captured text
  contains "Failed to obtain stable measurement" or "Please use a larger time window".
\<close>

definition unstable_text :: "string \<Rightarrow> bool" where
  "unstable_text out = (sublist stable_msg out \<or> sublist window_msg out)"

text \<open>
  A launch failed as retryable in the spec's sense: the process exited with a non-zero
  status and the text attached to the failure passes the spec's test.
\<close>

definition failed_as_retryable :: "launch \<Rightarrow> bool" where
  "failed_as_retryable l =
     (case l_raised l of
        Some (CalledProcessError rc cmd out) \<Rightarrow>
          rc \<noteq> 0 \<and> (case out of None \<Rightarrow> False | Some t \<Rightarrow> unstable_text t)
      | _ \<Rightarrow> False)"

text \<open>The call that started the launch returned with \<open>CalledProcessError\<close>.\<close>

definition call_failed :: "launch \<Rightarrow> bool" where
  "call_failed l =
     (case l_raised l of Some (CalledProcessError rc cmd out) \<Rightarrow> True | _ \<Rightarrow> False)"

text \<open>
  The call returned with \<open>CalledProcessError\<close> and the text attached to it contains
  "Please use a larger time window".
\<close>

definition asked_for_larger_window :: "launch \<Rightarrow> bool" where
  "asked_for_larger_window l =
     (case l_raised l of
        Some (CalledProcessError rc cmd out) \<Rightarrow>
          (case out of None \<Rightarrow> False | Some t \<Rightarrow> sublist window_msg t)
      | _ \<Rightarrow> False)"

text \<open>The text one launch wrote to the captured stream.\<close>

definition launch_text :: "launch \<Rightarrow> string" where
  "launch_text l = concat (captured (l_result l))"

text \<open>The value a row gives for a latency component, absent components counting as zero.\<close>

definition component :: "row \<Rightarrow> string \<Rightarrow> int" where
  "component r f =
     (case r f of
        None \<Rightarrow> 0
      | Some v \<Rightarrow> (case py_int v of Inl e \<Rightarrow> 0 | Inr n \<Rightarrow> n))"

text \<open>The argument vector of the process that \<open>run\<close> starts from a given analyzer.\<close>

definition argv_for :: "world \<Rightarrow> analyzer \<Rightarrow> string list" where
  "argv_for w s =
     (let command = [pa_bin_path s] @ split_ws (replace_eq (to_cli_string w (pa_config s)))
      in if pa_stream_output s then [''timeout'', str_int (pa_timeout s)] @ command
         else command)"

text \<open>The analyzer with its measurement interval set to a value.\<close>

definition set_interval :: "analyzer \<Rightarrow> pyval \<Rightarrow> analyzer" where
  "set_interval s v = s\<lparr>pa_config := (pa_config s)(''measurement-interval'' := v)\<rparr>"

text \<open>
  The value under a key in the row appended last to a list of results; nothing when the
  update raised, the list is empty or the row has no such key.
\<close>

definition appended_cell :: "error + row list \<Rightarrow> string \<Rightarrow> pyval option" where
  "appended_cell res k =
     (case res of
        Inl e \<Rightarrow> None
      | Inr rows \<Rightarrow> (case rev rows of [] \<Rightarrow> None | row # earlier \<Rightarrow> row k))"


section \<open>Concrete worlds and analyzers\<close>

text \<open>A rendering of the configuration that shows the two adapted parameters.\<close>

definition show_cli :: "config \<Rightarrow> string" where
  "show_cli c =
     ''-m=resnet''
     @ (case c ''measurement-request-count'' of
          PyInt n \<Rightarrow> '' --measurement-request-count='' @ str_int n | _ \<Rightarrow> [])
     @ (case c ''measurement-interval'' of
          PyInt n \<Rightarrow> '' --measurement-interval='' @ str_int n | _ \<Rightarrow> [])"

text \<open>
  Nine processes exit with status 1 and ask for a larger window; the tenth exits with
  status 1 and prints the other message of an unstable measurement.
\<close>

definition w_nine_then_stable :: world where
  "w_nine_then_stable = \<lparr>to_cli_string = show_cli,
     proc = (\<lambda>n argv. if n < 9 then Exited 1 [''Please use a larger time window'']
                      else Exited 1 [''Failed to obtain stable measurement''])\<rparr>"

text \<open>The first two processes ask for a larger window, the later ones succeed.\<close>

definition w_two_windows :: world where
  "w_two_windows = \<lparr>to_cli_string = show_cli,
     proc = (\<lambda>n argv. if n < 2 then Exited 1 [''Please use a larger time window'']
                      else Exited 0 [''Throughput: 120 infer/sec''])\<rparr>"

text \<open>Every process exits with status 1 and a text that begins with the first message.\<close>

definition w_stable_first :: world where
  "w_stable_first = \<lparr>to_cli_string = show_cli,
     proc = (\<lambda>n argv. Exited 1 [''Failed to obtain stable measurement''])\<rparr>"

text \<open>Every process exits with status 1 because the server cannot be reached.\<close>

definition w_refused :: world where
  "w_refused = \<lparr>to_cli_string = show_cli,
     proc = (\<lambda>n argv. Exited 1 [''error: failed to connect to server''])\<rparr>"

text \<open>The first process runs into the time limit without output, the later ones succeed.\<close>

definition w_timeout_first :: world where
  "w_timeout_first = \<lparr>to_cli_string = show_cli,
     proc = (\<lambda>n argv. if n = 0 then TimedOut [] else Exited 0 [''Throughput: 120 infer/sec''])\<rparr>"

text \<open>Every process exits with status 0 and prints nothing.\<close>

definition w_silent :: world where
  "w_silent = \<lparr>to_cli_string = show_cli, proc = (\<lambda>n argv. Exited 0 [])\<rparr>"

definition s_count :: analyzer where
  "s_count = \<lparr>pa_bin_path = ''perf_analyzer'',
     pa_config = PerfAnalyzerConfig(''measurement-request-count'' := PyInt 50),
     pa_output = None, pa_stream_output = False, pa_timeout = 30\<rparr>"

definition s_count_stream :: analyzer where
  "s_count_stream = s_count\<lparr>pa_stream_output := True\<rparr>"

definition s_time_stream :: analyzer where
  "s_time_stream = \<lparr>pa_bin_path = ''perf_analyzer'',
     pa_config = PerfAnalyzerConfig(''measurement-mode'' := PyStr ''time_windows'',
                                    ''measurement-interval'' := PyInt 10000),
     pa_output = Some ''text of an earlier run'', pa_stream_output = True, pa_timeout = 30\<rparr>"

text \<open>Metrics files: two samples of one batch size, and a file with a column named like the derived one.\<close>

definition csv_two_samples :: "row list" where
  "csv_two_samples =
     [[''Concurrency'' \<mapsto> PyStr ''1'', ''Client Send'' \<mapsto> PyStr ''10'',
       ''Server Queue'' \<mapsto> PyStr ''5''],
      [''Concurrency'' \<mapsto> PyStr ''2'', ''Client Send'' \<mapsto> PyStr ''12'',
       ''Server Queue'' \<mapsto> PyStr ''7'']]"

definition csv_collision :: "row list" where
  "csv_collision = [[''Client Send'' \<mapsto> PyStr ''10'', ''avg latency'' \<mapsto> PyStr ''7'']]"

definition tk_local :: toolkit where
  "tk_local = \<lparr>parse_server_url = (\<lambda>url. Inr (''http'', ''localhost'', 8000)),
     sort_results = (\<lambda>rows. rows),
     read_csv = (\<lambda>n path. Some csv_two_samples)\<rparr>"

definition opts_default :: options where
  "opts_default = \<lparr>input_shapes = None, profiling_data = ''random'', triton_instances = 1,
     server_url = ''http://localhost:8000'', measurement_window = PyInt 10000,
     shared_memory = False\<rparr>"

definition st_empty :: sweep_state where
  "st_empty = \<lparr>st_launches = [], st_logged = [], st_removed = []\<rparr>"


section \<open>Facts about the built-ins\<close>

lemma find_from_range: "find_from sub s i = - 1 \<or> i \<le> find_from sub s i"
proof (induction s arbitrary: i)
  case Nil
  show ?case by simp
next
  case (Cons c cs)
  from Cons.IH [of "i + 1"] show ?case by auto
qed

lemma find_from_absent: "0 \<le> i \<Longrightarrow> (find_from sub s i = - 1) = (\<not> sublist sub s)"
proof (induction s arbitrary: i)
  case Nil
  then show ?case by auto
next
  case (Cons c cs)
  then show ?case by (auto simp: sublist_Cons_right)
qed

lemma find_from_start: "0 \<le> i \<Longrightarrow> (find_from sub s i = i) = prefix sub s"
proof (cases s)
  case Nil
  assume "0 \<le> i"
  with Nil show ?thesis by auto
next
  case (Cons c cs)
  assume "0 \<le> i"
  with Cons find_from_range [of sub cs "i + 1"] show ?thesis by auto
qed

lemma py_find_absent: "(py_find s sub = - 1) = (\<not> sublist sub s)"
  by (simp add: py_find_def find_from_absent)

lemma py_find_zero: "(py_find s sub = 0) = prefix sub s"
  using find_from_start [of 0 sub s] by (simp add: py_find_def)

text \<open>
  What the classifier computes: a true value unless the text begins with the first
  message and does not contain the second.
\<close>

lemma classified_retryable_iff:
  "classified_retryable (Some out) = (\<not> prefix stable_msg out \<or> sublist window_msg out)"
  by (simp add: classified_retryable_def faild_with_measruement_inverval_def
      py_find_zero py_find_absent)

lemma classified_retryable_None: "\<not> classified_retryable None"
  by (simp add: classified_retryable_def faild_with_measruement_inverval_def)


section \<open>Facts about one attempt and about the handler\<close>

lemma py_add_int_number: "py_add_int v d = Inr v' \<Longrightarrow> is_number v'"
  by (cases v) auto

lemma py_add_int_total: "is_number v \<Longrightarrow> \<exists>v'. py_add_int v d = Inr v'"
  by (cases v) auto

lemma on_cpe_Inr:
  assumes "on_called_process_error rc cmd out s = Inr s2"
  shows "classified_retryable out" and "adaptable s2"
    and "pa_output s2 = pa_output s" and "pa_stream_output s2 = pa_stream_output s"
    and "pa_bin_path s2 = pa_bin_path s" and "pa_timeout s2 = pa_timeout s"
    and "pa_config s2 ''measurement-mode'' = pa_config s ''measurement-mode''"
  using assms
  by (auto simp: on_called_process_error_def classified_retryable_def adaptable_def
      increase_request_count_def increase_time_interval_def config_get_def config_set_def
      dest: py_add_int_number split: sum.splits if_splits)

lemma py_add_int_error: "py_add_int v d = Inl e \<Longrightarrow> e = TypeError \<and> \<not> is_number v"
  by (cases v) auto

lemma on_cpe_Inl_kind:
  assumes "on_called_process_error rc cmd out s = Inl e"
  shows "e = TypeError \<or> e = AttributeError \<or> e = ModelNavigatorException (RunFailed cmd rc out)"
  using assms
  by (auto simp: on_called_process_error_def faild_with_measruement_inverval_def
      increase_request_count_def increase_time_interval_def
      dest: py_add_int_error split: sum.splits if_splits option.splits)

lemma on_cpe_Inl_adaptable:
  assumes "on_called_process_error rc cmd out s = Inl e" and "adaptable s"
  shows "\<not> classified_retryable out"
  using assms
  by (auto simp: on_called_process_error_def classified_retryable_def adaptable_def
      increase_request_count_def increase_time_interval_def config_get_def
      dest: py_add_int_error split: sum.splits if_splits)

lemma read_lines_Some:
  "pa_output s = Some t \<Longrightarrow> read_lines ls s = Inr (s\<lparr>pa_output := Some (t @ concat ls)\<rparr>)"
  by (induction ls arbitrary: s t) auto

lemma read_lines_fields:
  "read_lines ls s = Inr s1 \<Longrightarrow>
     pa_config s1 = pa_config s \<and> pa_stream_output s1 = pa_stream_output s
     \<and> pa_bin_path s1 = pa_bin_path s \<and> pa_timeout s1 = pa_timeout s"
  by (induction ls arbitrary: s) (auto split: if_splits option.splits)

lemma read_lines_error: "read_lines ls s = Inl e \<Longrightarrow> e = TypeError"
  by (induction ls arbitrary: s) (auto split: if_splits option.splits)

lemma attempt_shape:
  assumes "attempt w cmd s tr = (r1, s1, tr1)"
  shows "\<exists>l. tr1 = tr @ [l] \<and> l_raised l = raised_of r1"
    and "pa_config s1 = pa_config s" and "pa_stream_output s1 = pa_stream_output s"
    and "pa_bin_path s1 = pa_bin_path s" and "pa_timeout s1 = pa_timeout s"
    and "r1 \<noteq> Inl (ModelNavigatorException m)"
  using assms
  by (auto simp: attempt_def check_output_def run_with_stream_def Let_def
      dest: read_lines_fields read_lines_error
      split: if_splits sum.splits proc_result.splits prod.splits)

lemma call_failed_raised:
  "l_raised l = Some (CalledProcessError rc cmd out) \<Longrightarrow> call_failed l"
  by (simp add: call_failed_def)

lemma window_raised:
  "l_raised l = Some (CalledProcessError rc cmd out) \<Longrightarrow> asked_for_larger_window l
     \<Longrightarrow> classified_retryable out"
  by (cases out) (auto simp: asked_for_larger_window_def classified_retryable_iff)

lemma not_window_raised:
  "l_raised l = raised_of r \<Longrightarrow> (\<And>rc cmd out. r \<noteq> Inl (CalledProcessError rc cmd out))
     \<Longrightarrow> \<not> asked_for_larger_window l"
  by (cases r) (auto simp: asked_for_larger_window_def split: error.splits)

text \<open>
  The loop with \<open>n\<close> iterations left starts at most \<open>n\<close> processes; it ends with the
  retry-ceiling exception only after \<open>n\<close> processes whose calls all failed; and it does
  end so when \<open>n\<close> processes were started and every failure carried the text "Please use a
  larger time window".
\<close>

lemma run_loop_bound:
  "run_loop n w s tr = (res, s', tr') \<Longrightarrow>
     \<exists>ls. tr' = tr @ ls \<and> length ls \<le> n
        \<and> (res = Inl (ModelNavigatorException (NoValidRequests MAX_INTERVAL_CHANGES))
              \<longrightarrow> length ls = n \<and> list_all call_failed ls)
        \<and> ((adaptable s \<or> 2 \<le> n) \<and> length ls = n \<and> list_all asked_for_larger_window ls
              \<longrightarrow> res = Inl (ModelNavigatorException (NoValidRequests MAX_INTERVAL_CHANGES)))"
proof (induction n arbitrary: s tr)
  case 0
  then show ?case by simp
next
  case (Suc n)
  let ?cmd = "[pa_bin_path s] @ split_ws (replace_eq (to_cli_string w (pa_config s)))"
  obtain r1 s1 tr1 where att: "attempt w ?cmd s tr = (r1, s1, tr1)"
    by (cases "attempt w ?cmd s tr") auto
  from attempt_shape(1) [OF att] obtain l where l: "tr1 = tr @ [l]" "l_raised l = raised_of r1"
    by blast
  have cfg: "pa_config s1 = pa_config s" by (rule attempt_shape(2) [OF att])
  have no_mn: "\<And>m. r1 \<noteq> Inl (ModelNavigatorException m)" by (rule attempt_shape(6) [OF att])
  show ?case
  proof (cases "\<exists>rc cmd out. r1 = Inl (CalledProcessError rc cmd out)")
    case False
    then have stop: "res = r1" "tr' = tr1"
      using Suc.prems att by (auto simp: Let_def split: sum.splits error.splits)
    have "\<not> asked_for_larger_window l"
      using l(2) False by (intro not_window_raised [of l r1]) auto
    with stop l no_mn show ?thesis by auto
  next
    case True
    then obtain rc cmd out where r1: "r1 = Inl (CalledProcessError rc cmd out)" by blast
    have raised: "l_raised l = Some (CalledProcessError rc cmd out)" using l(2) r1 by simp
    have cf: "call_failed l" by (rule call_failed_raised [OF raised])
    show ?thesis
    proof (cases "on_called_process_error rc cmd out s1")
      case (Inl e)
      then have stop: "res = Inl e" "tr' = tr1"
        using Suc.prems att r1 by (auto simp: Let_def)
      have e: "e \<noteq> ModelNavigatorException (NoValidRequests MAX_INTERVAL_CHANGES)"
        using on_cpe_Inl_kind [OF Inl] by auto
      have "adaptable s1 \<Longrightarrow> \<not> asked_for_larger_window l"
        using on_cpe_Inl_adaptable [OF Inl] window_raised [OF raised] by blast
      moreover have "adaptable s1 = adaptable s" using cfg by (simp add: adaptable_def)
      ultimately have "adaptable s \<Longrightarrow> \<not> asked_for_larger_window l" by simp
      with stop l e show ?thesis by auto
    next
      case (Inr s2)
      then have go: "run_loop n w s2 tr1 = (res, s', tr')"
        using Suc.prems att r1 by (auto simp: Let_def)
      from Suc.IH [OF go] obtain ls where ls: "tr' = tr1 @ ls" "length ls \<le> n"
        "res = Inl (ModelNavigatorException (NoValidRequests MAX_INTERVAL_CHANGES))
           \<longrightarrow> length ls = n \<and> list_all call_failed ls"
        "(adaptable s2 \<or> 2 \<le> n) \<and> length ls = n \<and> list_all asked_for_larger_window ls
           \<longrightarrow> res = Inl (ModelNavigatorException (NoValidRequests MAX_INTERVAL_CHANGES))"
        by blast
      have ad: "adaptable s2" by (rule on_cpe_Inr(2) [OF Inr])
      have "tr' = tr @ (l # ls)" using ls(1) l(1) by simp
      moreover have "length (l # ls) \<le> Suc n" using ls(2) by simp
      moreover have "res = Inl (ModelNavigatorException (NoValidRequests MAX_INTERVAL_CHANGES))
          \<longrightarrow> length (l # ls) = Suc n \<and> list_all call_failed (l # ls)"
        using ls(3) cf by simp
      moreover have "(adaptable s \<or> 2 \<le> Suc n) \<and> length (l # ls) = Suc n
          \<and> list_all asked_for_larger_window (l # ls)
          \<longrightarrow> res = Inl (ModelNavigatorException (NoValidRequests MAX_INTERVAL_CHANGES))"
        using ls(4) ad by simp
      ultimately show ?thesis by blast
    qed
  qed
qed

text \<open>For \<open>run\<close> itself the bound is 10.\<close>

lemma run_never_exceeds_ten:
  assumes "run w s tr = (res, s', tr')"
  shows "\<exists>ls. tr' = tr @ ls \<and> length ls \<le> 10
           \<and> (res = Inl (ModelNavigatorException (NoValidRequests 10))
                 \<longrightarrow> length ls = 10 \<and> list_all call_failed ls)
           \<and> (length ls = 10 \<and> list_all asked_for_larger_window ls
                 \<longrightarrow> res = Inl (ModelNavigatorException (NoValidRequests 10)))"
proof -
  let ?s0 = "if pa_stream_output s then s\<lparr>pa_output := Some ''''\<rparr> else s"
  have "run_loop 10 w ?s0 tr = (res, s', tr')"
    using assms by (simp add: run_def MAX_INTERVAL_CHANGES_def)
  from run_loop_bound [OF this] show ?thesis
    by (simp add: MAX_INTERVAL_CHANGES_def)
qed


section \<open>Facts about the streamed capture\<close>

lemma attempt_stream:
  assumes "attempt w cmd s tr = (r1, s1, tr1)" and "pa_stream_output s" and "pa_output s = Some acc"
  shows "\<exists>l. tr1 = tr @ [l] \<and> l_raised l = raised_of r1
           \<and> pa_output s1 = Some (acc @ launch_text l)
           \<and> (\<forall>rc c out. r1 = Inl (CalledProcessError rc c out) \<longrightarrow> out = Some (acc @ launch_text l))"
  using assms
  by (auto simp: attempt_def run_with_stream_def Let_def read_lines_Some launch_text_def
      split: if_splits)

lemma raised_of_Some: "raised_of r = Some e \<Longrightarrow> r = Inl e"
  by (cases r) auto

lemma run_loop_stream:
  "run_loop n w s tr = (res, s', tr') \<Longrightarrow> pa_stream_output s \<Longrightarrow> pa_output s = Some acc \<Longrightarrow>
     \<exists>ls. tr' = tr @ ls \<and> pa_output s' = Some (acc @ concat (map launch_text ls))
        \<and> (\<forall>k<length ls. \<forall>rc c out. l_raised (ls ! k) = Some (CalledProcessError rc c out)
              \<longrightarrow> out = Some (acc @ concat (map launch_text (take (Suc k) ls))))
        \<and> (\<forall>c rc out. res = Inl (ModelNavigatorException (RunFailed c rc out))
              \<longrightarrow> ls \<noteq> [] \<and> out = Some (acc @ concat (map launch_text ls)))"
proof (induction n arbitrary: s tr acc)
  case 0
  then show ?case by auto
next
  case (Suc n)
  let ?cmd = "[pa_bin_path s] @ split_ws (replace_eq (to_cli_string w (pa_config s)))"
  obtain r1 s1 tr1 where att: "attempt w ?cmd s tr = (r1, s1, tr1)"
    by (cases "attempt w ?cmd s tr") auto
  from attempt_stream [OF att Suc.prems(2,3)] obtain l where
    l: "tr1 = tr @ [l]" "l_raised l = raised_of r1" "pa_output s1 = Some (acc @ launch_text l)"
       "\<And>rc c out. r1 = Inl (CalledProcessError rc c out) \<Longrightarrow> out = Some (acc @ launch_text l)"
    by blast
  have no_mn: "\<And>m. r1 \<noteq> Inl (ModelNavigatorException m)" by (rule attempt_shape(6) [OF att])
  have st1: "pa_stream_output s1" using attempt_shape(3) [OF att] Suc.prems(2) by simp
  have first: "\<And>rc c out. l_raised l = Some (CalledProcessError rc c out)
      \<Longrightarrow> out = Some (acc @ launch_text l)"
    using l(2) l(4) by (auto dest: raised_of_Some)
  have single: "res = r1 \<or> (\<exists>rc c out. r1 = Inl (CalledProcessError rc c out)
         \<and> res = Inl (ModelNavigatorException (RunFailed c rc out)))
         \<or> res = Inl TypeError \<or> res = Inl AttributeError \<Longrightarrow> tr' = tr1 \<Longrightarrow> s' = s1 \<Longrightarrow> ?case"
  proof -
    assume res: "res = r1 \<or> (\<exists>rc c out. r1 = Inl (CalledProcessError rc c out)
         \<and> res = Inl (ModelNavigatorException (RunFailed c rc out)))
         \<or> res = Inl TypeError \<or> res = Inl AttributeError" and tr': "tr' = tr1" and s': "s' = s1"
    have a: "tr' = tr @ [l]" using tr' l(1) by simp
    have b: "pa_output s' = Some (acc @ concat (map launch_text [l]))" using s' l(3) by simp
    have c: "\<forall>k<length [l]. \<forall>rc c out. l_raised ([l] ! k) = Some (CalledProcessError rc c out)
              \<longrightarrow> out = Some (acc @ concat (map launch_text (take (Suc k) [l])))"
      using first by simp
    have d: "\<forall>c rc out. res = Inl (ModelNavigatorException (RunFailed c rc out))
              \<longrightarrow> [l] \<noteq> [] \<and> out = Some (acc @ concat (map launch_text [l]))"
      using res no_mn l(4) by auto
    from a b c d show ?case by blast
  qed
  show ?case
  proof (cases "\<exists>rc cmd out. r1 = Inl (CalledProcessError rc cmd out)")
    case False
    then have "res = r1" "tr' = tr1" "s' = s1"
      using Suc.prems(1) att by (auto simp: Let_def split: sum.splits error.splits)
    then show ?thesis using single by blast
  next
    case True
    then obtain rc cmd out where r1: "r1 = Inl (CalledProcessError rc cmd out)" by blast
    show ?thesis
    proof (cases "on_called_process_error rc cmd out s1")
      case (Inl e)
      then have stop: "res = Inl e" "tr' = tr1" "s' = s1"
        using Suc.prems(1) att r1 by (auto simp: Let_def)
      from on_cpe_Inl_kind [OF Inl] stop(1) r1
      have "res = r1 \<or> (\<exists>rc c out. r1 = Inl (CalledProcessError rc c out)
         \<and> res = Inl (ModelNavigatorException (RunFailed c rc out)))
         \<or> res = Inl TypeError \<or> res = Inl AttributeError" by auto
      then show ?thesis using single stop by blast
    next
      case (Inr s2)
      then have go: "run_loop n w s2 tr1 = (res, s', tr')"
        using Suc.prems(1) att r1 by (auto simp: Let_def)
      have st2: "pa_stream_output s2" using on_cpe_Inr(4) [OF Inr] st1 by simp
      have out2: "pa_output s2 = Some (acc @ launch_text l)" using on_cpe_Inr(3) [OF Inr] l(3) by simp
      from Suc.IH [OF go st2 out2] obtain ls where ls: "tr' = tr1 @ ls"
        "pa_output s' = Some ((acc @ launch_text l) @ concat (map launch_text ls))"
        "\<And>k rc c out. k < length ls \<Longrightarrow> l_raised (ls ! k) = Some (CalledProcessError rc c out)
              \<Longrightarrow> out = Some ((acc @ launch_text l) @ concat (map launch_text (take (Suc k) ls)))"
        "\<And>c rc out. res = Inl (ModelNavigatorException (RunFailed c rc out))
              \<Longrightarrow> ls \<noteq> [] \<and> out = Some ((acc @ launch_text l) @ concat (map launch_text ls))"
        by blast
      have a: "tr' = tr @ (l # ls)" using ls(1) l(1) by simp
      have b: "pa_output s' = Some (acc @ concat (map launch_text (l # ls)))" using ls(2) by simp
      have c: "\<forall>k<length (l # ls). \<forall>rc c out.
                l_raised ((l # ls) ! k) = Some (CalledProcessError rc c out)
              \<longrightarrow> out = Some (acc @ concat (map launch_text (take (Suc k) (l # ls))))"
      proof (intro allI impI)
        fix k rc c out
        assume k: "k < length (l # ls)"
          and r: "l_raised ((l # ls) ! k) = Some (CalledProcessError rc c out)"
        show "out = Some (acc @ concat (map launch_text (take (Suc k) (l # ls))))"
        proof (cases k)
          case 0
          with r first show ?thesis by simp
        next
          case (Suc j)
          with k r ls(3) [of j rc c out] show ?thesis by simp
        qed
      qed
      have d: "\<forall>c rc out. res = Inl (ModelNavigatorException (RunFailed c rc out))
              \<longrightarrow> l # ls \<noteq> [] \<and> out = Some (acc @ concat (map launch_text (l # ls)))"
        using ls(4) by simp
      from a b c d show ?thesis by blast
    qed
  qed
qed


section \<open>One iteration of the loop\<close>

lemma attempt_eq:
  "attempt w (pa_bin_path s # split_ws (replace_eq (to_cli_string w (pa_config s)))) s tr =
     (if pa_stream_output s then
        (case read_lines (captured (proc w (length tr) (argv_for w s))) s of
           Inl e \<Rightarrow> (Inl e, s, tr @ [Launch (argv_for w s) (proc w (length tr) (argv_for w s)) (Some e)])
         | Inr s1 \<Rightarrow>
             if wrapper_status (proc w (length tr) (argv_for w s)) \<noteq> 0
             then (Inl (CalledProcessError (wrapper_status (proc w (length tr) (argv_for w s)))
                          (argv_for w s) (pa_output s1)), s1,
                   tr @ [Launch (argv_for w s) (proc w (length tr) (argv_for w s))
                          (Some (CalledProcessError (wrapper_status (proc w (length tr) (argv_for w s)))
                          (argv_for w s) (pa_output s1)))])
             else (Inr (), s1, tr @ [Launch (argv_for w s) (proc w (length tr) (argv_for w s)) None]))
      else
        (case proc w (length tr) (argv_for w s) of
           Exited rc ls \<Rightarrow>
             if rc = 0
             then (Inr (), s\<lparr>pa_output := Some (concat ls)\<rparr>,
                   tr @ [Launch (argv_for w s) (Exited rc ls) None])
             else (Inl (CalledProcessError rc (argv_for w s) (Some (concat ls))), s,
                   tr @ [Launch (argv_for w s) (Exited rc ls)
                          (Some (CalledProcessError rc (argv_for w s) (Some (concat ls))))])
         | TimedOut ls \<Rightarrow>
             (Inl (TimeoutExpired (argv_for w s) (pa_timeout s)), s,
              tr @ [Launch (argv_for w s) (TimedOut ls)
                     (Some (TimeoutExpired (argv_for w s) (pa_timeout s)))])))"
proof (cases "pa_stream_output s")
  case True
  then show ?thesis
    by (simp add: attempt_def run_with_stream_def argv_for_def Let_def split: sum.splits)
next
  case False
  then show ?thesis
    by (simp add: attempt_def check_output_def argv_for_def Let_def split: proc_result.splits)
qed

lemma run_loop_step_fail:
  assumes "proc w (length tr) (argv_for w s) = Exited rc ls" and "rc \<noteq> 0"
    and "pa_stream_output s \<longrightarrow> pa_output s = Some acc"
  shows "run_loop (Suc n) w s tr =
     (let text = (if pa_stream_output s then acc @ concat ls else concat ls);
          s1 = (if pa_stream_output s then s\<lparr>pa_output := Some text\<rparr> else s);
          e = CalledProcessError rc (argv_for w s) (Some text);
          tr1 = tr @ [Launch (argv_for w s) (Exited rc ls) (Some e)]
      in case on_called_process_error rc (argv_for w s) (Some text) s1 of
           Inl e' \<Rightarrow> (Inl e', s1, tr1)
         | Inr s2 \<Rightarrow> run_loop n w s2 tr1)"
  using assms by (simp add: attempt_eq Let_def read_lines_Some)

lemma run_loop_step_ok:
  assumes "proc w (length tr) (argv_for w s) = Exited 0 ls"
    and "pa_stream_output s \<longrightarrow> pa_output s = Some acc"
  shows "run_loop (Suc n) w s tr =
     (Inr (), s\<lparr>pa_output := Some (if pa_stream_output s then acc @ concat ls else concat ls)\<rparr>,
      tr @ [Launch (argv_for w s) (Exited 0 ls) None])"
  using assms by (simp add: attempt_eq Let_def read_lines_Some)

lemma run_loop_step_timeout_stream:
  assumes "proc w (length tr) (argv_for w s) = TimedOut ls"
    and "pa_stream_output s" and "pa_output s = Some acc"
  shows "run_loop (Suc n) w s tr =
     (let text = acc @ concat ls;
          s1 = s\<lparr>pa_output := Some text\<rparr>;
          e = CalledProcessError 124 (argv_for w s) (Some text);
          tr1 = tr @ [Launch (argv_for w s) (TimedOut ls) (Some e)]
      in case on_called_process_error 124 (argv_for w s) (Some text) s1 of
           Inl e' \<Rightarrow> (Inl e', s1, tr1)
         | Inr s2 \<Rightarrow> run_loop n w s2 tr1)"
  using assms by (simp add: attempt_eq Let_def read_lines_Some)

lemma run_loop_step_timeout_buffered:
  assumes "proc w (length tr) (argv_for w s) = TimedOut ls" and "\<not> pa_stream_output s"
  shows "run_loop (Suc n) w s tr =
     (Inl (TimeoutExpired (argv_for w s) (pa_timeout s)), s,
      tr @ [Launch (argv_for w s) (TimedOut ls) (Some (TimeoutExpired (argv_for w s) (pa_timeout s)))])"
  using assms by (simp add: attempt_eq Let_def)

lemma classifier_value:
  "\<exists>v. faild_with_measruement_inverval (Some out) = Inr v
      \<and> truthy v = (\<not> prefix stable_msg out \<or> sublist window_msg out)"
  by (simp add: faild_with_measruement_inverval_def py_find_zero py_find_absent)

lemma on_cpe_time:
  assumes "pa_config s ''measurement-mode'' \<noteq> PyNone"
    and "pa_config s ''measurement-mode'' \<noteq> PyStr ''count_windows''"
    and "pa_config s ''measurement-interval'' = PyInt i"
    and "\<not> prefix stable_msg out \<or> sublist window_msg out"
  shows "on_called_process_error rc cmd (Some out) s =
     Inr (s\<lparr>pa_config := (pa_config s)(''measurement-interval'' := PyInt (i + 2000))\<rparr>)"
  using assms classifier_value [of out]
  by (auto simp: on_called_process_error_def increase_time_interval_def config_get_def
      config_set_def TIME_INTERVAL_DELTA_def)

lemma on_cpe_count:
  assumes "pa_config s ''measurement-mode'' = PyNone
      \<or> pa_config s ''measurement-mode'' = PyStr ''count_windows''"
    and "pa_config s ''measurement-request-count'' = PyInt i"
    and "\<not> prefix stable_msg out \<or> sublist window_msg out"
  shows "on_called_process_error rc cmd (Some out) s =
     Inr (s\<lparr>pa_config := (pa_config s)(''measurement-request-count'' := PyInt (i + 50))\<rparr>)"
  using assms classifier_value [of out]
  by (auto simp: on_called_process_error_def increase_request_count_def config_get_def
      config_set_def COUNT_INTERVAL_DELTA_def)

lemma on_cpe_fatal:
  assumes "prefix stable_msg out" and "\<not> sublist window_msg out"
  shows "on_called_process_error rc cmd (Some out) s =
     Inl (ModelNavigatorException (RunFailed cmd rc (Some out)))"
  using assms classifier_value [of out]
  by (auto simp: on_called_process_error_def)


lemma argv_for_cong:
  "pa_config a = pa_config b \<Longrightarrow> pa_stream_output a = pa_stream_output b \<Longrightarrow>
   pa_bin_path a = pa_bin_path b \<Longrightarrow> pa_timeout a = pa_timeout b \<Longrightarrow>
   argv_for w a = argv_for w b"
  by (simp add: argv_for_def Let_def)

lemma run_loop_retry_time:
  assumes "proc w (length tr) (argv_for w s) = Exited rc ls" and "rc \<noteq> 0"
    and "pa_stream_output s \<longrightarrow> pa_output s = Some acc"
    and "pa_config s ''measurement-mode'' \<noteq> PyNone"
    and "pa_config s ''measurement-mode'' \<noteq> PyStr ''count_windows''"
    and "pa_config s ''measurement-interval'' = PyInt i"
    and "sublist window_msg (concat ls)"
  shows "\<exists>t l. run_loop (Suc n) w s tr = run_loop n w t (tr @ [l])
           \<and> l_argv l = argv_for w s
           \<and> pa_config t = (pa_config s)(''measurement-interval'' := PyInt (i + 2000))
           \<and> pa_stream_output t = pa_stream_output s \<and> pa_bin_path t = pa_bin_path s
           \<and> pa_timeout t = pa_timeout s
           \<and> (pa_stream_output s \<longrightarrow> pa_output t = Some (acc @ concat ls))"
proof -
  let ?text = "if pa_stream_output s then acc @ concat ls else concat ls"
  let ?s1 = "if pa_stream_output s then s\<lparr>pa_output := Some ?text\<rparr> else s"
  let ?t = "?s1\<lparr>pa_config := (pa_config ?s1)(''measurement-interval'' := PyInt (i + 2000))\<rparr>"
  let ?l = "Launch (argv_for w s) (Exited rc ls)
              (Some (CalledProcessError rc (argv_for w s) (Some ?text)))"
  have "sublist window_msg ?text" using assms(7) by (simp add: sublist_append)
  then have "on_called_process_error rc (argv_for w s) (Some ?text) ?s1 = Inr ?t"
    using assms(4-6) by (intro on_cpe_time) auto
  then have "run_loop (Suc n) w s tr = run_loop n w ?t (tr @ [?l])"
    unfolding run_loop_step_fail [OF assms(1-3)] by (simp add: Let_def)
  moreover have "l_argv ?l = argv_for w s" by simp
  moreover have "pa_config ?t = (pa_config s)(''measurement-interval'' := PyInt (i + 2000))"
    by simp
  moreover have "pa_stream_output ?t = pa_stream_output s" "pa_bin_path ?t = pa_bin_path s"
    "pa_timeout ?t = pa_timeout s" by simp_all
  moreover have "pa_stream_output s \<longrightarrow> pa_output ?t = Some (acc @ concat ls)" by simp
  ultimately show ?thesis by blast
qed


section \<open>Facts about the metrics rows\<close>

lemma int_each_Inr:
  "int_each vs = Inr ns \<Longrightarrow> ns = map (\<lambda>v. case py_int v of Inl e \<Rightarrow> 0 | Inr n \<Rightarrow> n) vs
     \<and> (\<forall>v\<in>set vs. \<exists>n. py_int v = Inr n)"
  by (induction vs arbitrary: ns) (auto split: sum.splits)

lemma int_each_total:
  "\<forall>v\<in>set vs. \<exists>n. py_int v = Inr n \<Longrightarrow>
     int_each vs = Inr (map (\<lambda>v. case py_int v of Inl e \<Rightarrow> 0 | Inr n \<Rightarrow> n) vs)"
  by (induction vs) auto

lemma component_dict_get:
  "(case py_int (dict_get r f (PyInt 0)) of Inl e \<Rightarrow> 0 | Inr n \<Rightarrow> n) = component r f"
  by (simp add: dict_get_def component_def split: option.splits)

lemma latency_sum:
  "sum_list (map (\<lambda>v. case py_int v of Inl e \<Rightarrow> 0 | Inr n \<Rightarrow> n)
       (map (\<lambda>f. dict_get r f (PyInt 0)) avg_sum_fields))
   = component r ''Client Send'' + component r ''Network+Server Send/Recv''
     + component r ''Server Queue'' + component r ''Server Compute''
     + component r ''Server Compute Input'' + component r ''Server Compute Infer''
     + component r ''Server Compute Output'' + component r ''Client Recv''"
  by (simp add: avg_sum_fields_def component_dict_get)

lemma merge_rows_shared:
  assumes "merge_rows row rs = Inr row'" and "rs \<noteq> []" and "\<forall>r\<in>set rs. dom r = cols"
  shows "\<exists>avg. calculate_average_latency (last rs) = Inr avg
           \<and> row' = (\<lambda>k. if k = ''avg latency'' then Some (PyInt avg)
                          else if k \<in> cols then last rs k else row k)"
  using assms
proof (induction rs arbitrary: row)
  case Nil
  then show ?case by simp
next
  case (Cons r rs)
  from Cons.prems(1) obtain a where a: "calculate_average_latency r = Inr a"
    "merge_rows ((row ++ r)(''avg latency'' \<mapsto> PyInt a)) rs = Inr row'"
    by (auto split: sum.splits)
  have dom_r: "dom r = cols" using Cons.prems(3) by simp
  have outside: "\<And>k. k \<notin> cols \<Longrightarrow> (row ++ r) k = row k"
    using dom_r by (auto simp: map_add_def split: option.splits)
  have inside: "\<And>k. k \<in> cols \<Longrightarrow> (row ++ r) k = r k"
    using dom_r by (auto simp: map_add_def split: option.splits)
  show ?case
  proof (cases "rs = []")
    case True
    then have "row' = (row ++ r)(''avg latency'' \<mapsto> PyInt a)" using a(2) by simp
    then have "row' = (\<lambda>k. if k = ''avg latency'' then Some (PyInt a)
                          else if k \<in> cols then r k else row k)"
      using outside inside by (auto simp: fun_eq_iff)
    moreover have lst: "last (r # rs) = r" using True by simp
    ultimately show ?thesis unfolding lst using a(1) by blast
  next
    case False
    have "\<forall>r\<in>set rs. dom r = cols" using Cons.prems(3) by simp
    from Cons.IH [OF a(2) False this] obtain avg where avg:
      "calculate_average_latency (last rs) = Inr avg"
      "row' = (\<lambda>k. if k = ''avg latency'' then Some (PyInt avg)
                    else if k \<in> cols then last rs k
                    else ((row ++ r)(''avg latency'' \<mapsto> PyInt a)) k)"
      by blast
    have "row' = (\<lambda>k. if k = ''avg latency'' then Some (PyInt avg)
                    else if k \<in> cols then last rs k else row k)"
      using avg(2) outside by (auto simp: fun_eq_iff)
    moreover have lst: "last (r # rs) = last rs" using False by simp
    ultimately show ?thesis unfolding lst using avg(1) by blast
  qed
qed


section \<open>The retry ceiling\<close>

text \<open>
  Claim C3, at an input where the code departs from it.  A buffered run whose first nine
  processes exit with status 1 and print "Please use a larger time window" and whose tenth
  exits with status 1 and prints "Failed to obtain stable measurement": all ten attempts
  fail as retryable in the spec's sense, and exactly ten processes are started (the request
  count has gone from 50 to 500 by the tenth).  But the classifier rejects the tenth text,
  which begins with the first message, so the run ends with the generic "failed with exit
  status 1" exception and not with the retry-ceiling exception.
\<close>

theorem tenth_failure_at_message_start_is_not_the_ceiling:
  "fst (run w_nine_then_stable s_count [])
     = Inl (ModelNavigatorException (RunFailed
         [''perf_analyzer'', ''-m'', ''resnet'', ''--measurement-request-count'', ''500''] 1
         (Some ''Failed to obtain stable measurement'')))
   \<and> length (snd (snd (run w_nine_then_stable s_count []))) = 10
   \<and> list_all failed_as_retryable (snd (snd (run w_nine_then_stable s_count [])))"
  by code_simp


section \<open>Two unstable windows, then success\<close>

text \<open>
  Claim C6.  Under a time-window measurement mode (the mode is set and is not
  "count_windows"), with an integer measurement interval \<open>i\<close>: if the first two
  processes of a run exit with a non-zero status and print "Please use a larger time
  window", and the third exits with status 0, then the run succeeds after exactly three
  processes, the third one is started from the configuration whose measurement interval
  is \<open>i + 4000\<close>, and that is the interval the configuration holds afterwards.  This
  holds in the buffered and in the streamed mode.
\<close>

theorem two_window_failures_add_4000:
  assumes "pa_config s ''measurement-mode'' \<noteq> PyNone"
    and "pa_config s ''measurement-mode'' \<noteq> PyStr ''count_windows''"
    and "pa_config s ''measurement-interval'' = PyInt i"
    and "proc w (length tr) (argv_for w s) = Exited rc0 ls0"
    and "rc0 \<noteq> 0" and "sublist window_msg (concat ls0)"
    and "proc w (Suc (length tr)) (argv_for w (set_interval s (PyInt (i + 2000)))) = Exited rc1 ls1"
    and "rc1 \<noteq> 0" and "sublist window_msg (concat ls1)"
    and "proc w (Suc (Suc (length tr))) (argv_for w (set_interval s (PyInt (i + 4000)))) = Exited 0 ls2"
  shows "\<exists>s' l0 l1 l2. run w s tr = (Inr (), s', tr @ [l0, l1, l2])
           \<and> l_argv l2 = argv_for w (set_interval s (PyInt (i + 4000)))
           \<and> pa_config s' ''measurement-interval'' = PyInt (i + 4000)"
proof -
  define s0 where "s0 = (if pa_stream_output s then s\<lparr>pa_output := Some ''''\<rparr> else s)"
  have s0: "pa_config s0 = pa_config s" "pa_stream_output s0 = pa_stream_output s"
    "pa_bin_path s0 = pa_bin_path s" "pa_timeout s0 = pa_timeout s"
    "pa_stream_output s0 \<longrightarrow> pa_output s0 = Some ''''" by (simp_all add: s0_def)
  have argv0: "argv_for w s0 = argv_for w s" by (rule argv_for_cong) (simp_all only: s0)
  have p0: "proc w (length tr) (argv_for w s0) = Exited rc0 ls0"
    using assms(4) by (simp only: argv0)
  have m0: "pa_config s0 ''measurement-mode'' \<noteq> PyNone"
    "pa_config s0 ''measurement-mode'' \<noteq> PyStr ''count_windows''"
    "pa_config s0 ''measurement-interval'' = PyInt i"
    using assms(1-3) by (simp_all add: s0(1))
  from run_loop_retry_time [OF p0 assms(5) s0(5) m0 assms(6), of 9]
  obtain t1 l0 where t1a: "run_loop (Suc 9) w s0 tr = run_loop 9 w t1 (tr @ [l0])"
    "pa_config t1 = (pa_config s0)(''measurement-interval'' := PyInt (i + 2000))"
    "pa_stream_output t1 = pa_stream_output s0" "pa_bin_path t1 = pa_bin_path s0"
    "pa_timeout t1 = pa_timeout s0"
    "pa_stream_output s0 \<longrightarrow> pa_output t1 = Some ('''' @ concat ls0)"
    by blast
  have t1: "run_loop (Suc 9) w s0 tr = run_loop 9 w t1 (tr @ [l0])"
    "pa_config t1 = (pa_config s)(''measurement-interval'' := PyInt (i + 2000))"
    "pa_stream_output t1 = pa_stream_output s" "pa_bin_path t1 = pa_bin_path s"
    "pa_timeout t1 = pa_timeout s"
    "pa_stream_output t1 \<longrightarrow> pa_output t1 = Some (concat ls0)"
    using t1a s0 by simp_all
  have argv1: "argv_for w t1 = argv_for w (set_interval s (PyInt (i + 2000)))"
    by (rule argv_for_cong) (simp_all add: t1 set_interval_def)
  have p1: "proc w (length (tr @ [l0])) (argv_for w t1) = Exited rc1 ls1"
    using assms(7) by (simp add: argv1)
  have m1: "pa_config t1 ''measurement-mode'' \<noteq> PyNone"
    "pa_config t1 ''measurement-mode'' \<noteq> PyStr ''count_windows''"
    "pa_config t1 ''measurement-interval'' = PyInt (i + 2000)"
    using assms(1,2) by (simp_all add: t1(2))
  from run_loop_retry_time [OF p1 assms(8) t1(6) m1 assms(9), of 8]
  obtain t2 l1 where t2a: "run_loop (Suc 8) w t1 (tr @ [l0]) = run_loop 8 w t2 ((tr @ [l0]) @ [l1])"
    "pa_config t2 = (pa_config t1)(''measurement-interval'' := PyInt (i + 2000 + 2000))"
    "pa_stream_output t2 = pa_stream_output t1" "pa_bin_path t2 = pa_bin_path t1"
    "pa_timeout t2 = pa_timeout t1"
    "pa_stream_output t1 \<longrightarrow> pa_output t2 = Some (concat ls0 @ concat ls1)"
    by blast
  have t2: "run_loop (Suc 8) w t1 (tr @ [l0]) = run_loop 8 w t2 ((tr @ [l0]) @ [l1])"
    "pa_config t2 = (pa_config s)(''measurement-interval'' := PyInt (i + 4000))"
    "pa_stream_output t2 = pa_stream_output s" "pa_bin_path t2 = pa_bin_path s"
    "pa_timeout t2 = pa_timeout s"
    "pa_stream_output t2 \<longrightarrow> pa_output t2 = Some (concat ls0 @ concat ls1)"
    using t2a t1(2-6) by (simp_all add: algebra_simps)
  have argv2: "argv_for w t2 = argv_for w (set_interval s (PyInt (i + 4000)))"
    by (rule argv_for_cong) (simp_all add: t1 t2 set_interval_def)
  have p2: "proc w (length ((tr @ [l0]) @ [l1])) (argv_for w t2) = Exited 0 ls2"
    using assms(10) by (simp add: argv2)
  let ?s' = "t2\<lparr>pa_output := Some (if pa_stream_output t2
      then (concat ls0 @ concat ls1) @ concat ls2 else concat ls2)\<rparr>"
  let ?l2 = "Launch (argv_for w t2) (Exited 0 ls2) None"
  have step3: "run_loop (Suc 7) w t2 ((tr @ [l0]) @ [l1]) = (Inr (), ?s', ((tr @ [l0]) @ [l1]) @ [?l2])"
    by (rule run_loop_step_ok [OF p2 t2(6)])
  have "run w s tr = run_loop (Suc 9) w s0 tr"
    by (simp add: run_def MAX_INTERVAL_CHANGES_def s0_def)
  also have "\<dots> = run_loop (Suc 8) w t1 (tr @ [l0])" using t1(1) by simp
  also have "\<dots> = run_loop (Suc 7) w t2 ((tr @ [l0]) @ [l1])" using t2(1) by simp
  also have "\<dots> = (Inr (), ?s', tr @ [l0, l1, ?l2])" using step3 by simp
  finally have "run w s tr = (Inr (), ?s', tr @ [l0, l1, ?l2])" .
  moreover have "l_argv ?l2 = argv_for w (set_interval s (PyInt (i + 4000)))"
    using argv2 by simp
  moreover have "pa_config ?s' ''measurement-interval'' = PyInt (i + 4000)"
    by (simp add: t2(2))
  ultimately show ?thesis by blast
qed

theorem two_window_failures_add_4000_witness:
  "\<exists>s' l0 l1 l2. run w_two_windows s_time_stream [] = (Inr (), s', [l0, l1, l2])
     \<and> l_argv l2 = [''timeout'', ''30'', ''perf_analyzer'', ''-m'', ''resnet'',
                     ''--measurement-interval'', ''14000'']
     \<and> pa_config s' ''measurement-interval'' = PyInt 14000"
proof -
  have mode: "pa_config s_time_stream ''measurement-mode'' \<noteq> PyNone"
    "pa_config s_time_stream ''measurement-mode'' \<noteq> PyStr ''count_windows''"
    "pa_config s_time_stream ''measurement-interval'' = PyInt 10000"
    by (simp_all add: s_time_stream_def)
  have p0: "proc w_two_windows (length []) (argv_for w_two_windows s_time_stream)
      = Exited 1 [''Please use a larger time window'']"
    by (simp add: w_two_windows_def)
  have p1: "proc w_two_windows (Suc (length []))
      (argv_for w_two_windows (set_interval s_time_stream (PyInt (10000 + 2000))))
      = Exited 1 [''Please use a larger time window'']"
    by (simp add: w_two_windows_def)
  have p2: "proc w_two_windows (Suc (Suc (length [])))
      (argv_for w_two_windows (set_interval s_time_stream (PyInt (10000 + 4000))))
      = Exited 0 [''Throughput: 120 infer/sec'']"
    by (simp add: w_two_windows_def)
  have sub: "sublist window_msg (concat [''Please use a larger time window''])"
    by (simp add: window_msg_def)
  have argv: "argv_for w_two_windows (set_interval s_time_stream (PyInt (10000 + 4000)))
      = [''timeout'', ''30'', ''perf_analyzer'', ''-m'', ''resnet'',
         ''--measurement-interval'', ''14000'']"
    by code_simp
  have "(1::int) \<noteq> 0" by simp
  from two_window_failures_add_4000 [OF mode p0 this sub p1 this sub p2]
  obtain s' l0 l1 l2 where "run w_two_windows s_time_stream [] = (Inr (), s', [] @ [l0, l1, l2])"
    "l_argv l2 = argv_for w_two_windows (set_interval s_time_stream (PyInt (10000 + 4000)))"
    "pa_config s' ''measurement-interval'' = PyInt (10000 + 4000)" by blast
  then have "run w_two_windows s_time_stream [] = (Inr (), s', [l0, l1, l2])
     \<and> l_argv l2 = [''timeout'', ''30'', ''perf_analyzer'', ''-m'', ''resnet'',
                     ''--measurement-interval'', ''14000'']
     \<and> pa_config s' ''measurement-interval'' = PyInt 14000"
    using argv by simp
  then show ?thesis by blast
qed


section \<open>The streamed output buffer\<close>

text \<open>
  Claim C9.  In the streamed mode \<open>run\<close> empties the stored output once, before the
  loop, and nothing empties it between attempts.  So, whatever the stored output was
  before the call: the text stored at the end is the concatenation of the texts of all
  processes the call started; the text attached to the failure of the k-th process is the
  concatenation of the texts of the first k; the text carried by the final "failed with
  exit status" exception is the concatenation of all of them; and after a success with
  some text \<open>output()\<close> returns that concatenation, not the text of the last process
  alone.
\<close>

theorem streamed_output_accumulates:
  assumes "pa_stream_output s" and "run w s tr = (res, s', tr')"
  shows "\<exists>ls. tr' = tr @ ls
           \<and> pa_output s' = Some (concat (map launch_text ls))
           \<and> (\<forall>k<length ls. \<forall>rc c out. l_raised (ls ! k) = Some (CalledProcessError rc c out)
                 \<longrightarrow> out = Some (concat (map launch_text (take (Suc k) ls))))
           \<and> (\<forall>c rc out. res = Inl (ModelNavigatorException (RunFailed c rc out))
                 \<longrightarrow> out = Some (concat (map launch_text ls)))
           \<and> (res = Inr () \<and> concat (map launch_text ls) \<noteq> []
                 \<longrightarrow> output_of s' = Inr (concat (map launch_text ls)))"
proof -
  have loop: "run_loop MAX_INTERVAL_CHANGES w (s\<lparr>pa_output := Some ''''\<rparr>) tr = (res, s', tr')"
    using assms by (simp add: run_def)
  from run_loop_stream [OF loop, of "''''"] assms(1)
  obtain ls where ls: "tr' = tr @ ls" "pa_output s' = Some (concat (map launch_text ls))"
    "\<forall>k<length ls. \<forall>rc c out. l_raised (ls ! k) = Some (CalledProcessError rc c out)
        \<longrightarrow> out = Some (concat (map launch_text (take (Suc k) ls)))"
    "\<forall>c rc out. res = Inl (ModelNavigatorException (RunFailed c rc out))
        \<longrightarrow> out = Some (concat (map launch_text ls))"
    by auto
  have "res = Inr () \<and> concat (map launch_text ls) \<noteq> []
      \<longrightarrow> output_of s' = Inr (concat (map launch_text ls))"
    using ls(2) by (simp add: output_of_def)
  with ls show ?thesis by blast
qed

theorem streamed_output_accumulates_witness:
  "output_of (fst (snd (run w_two_windows s_time_stream [])))
     = Inr (''Please use a larger time window'' @ ''Please use a larger time window''
            @ ''Throughput: 120 infer/sec'')
   \<and> l_raised (snd (snd (run w_two_windows s_time_stream [])) ! 1)
     = Some (CalledProcessError 1
         [''timeout'', ''30'', ''perf_analyzer'', ''-m'', ''resnet'',
          ''--measurement-interval'', ''12000'']
         (Some (''Please use a larger time window'' @ ''Please use a larger time window'')))"
proof -
  have res: "fst (run w_two_windows s_time_stream []) = Inr ()" by code_simp
  have texts: "map launch_text (snd (snd (run w_two_windows s_time_stream [])))
      = [''Please use a larger time window'', ''Please use a larger time window'',
         ''Throughput: 120 infer/sec'']" by code_simp
  have second: "l_raised (snd (snd (run w_two_windows s_time_stream [])) ! 1)
     = Some (CalledProcessError 1
         [''timeout'', ''30'', ''perf_analyzer'', ''-m'', ''resnet'',
          ''--measurement-interval'', ''12000'']
         (Some (''Please use a larger time window'' @ ''Please use a larger time window'')))"
    by code_simp
  have stream: "pa_stream_output s_time_stream" by (simp add: s_time_stream_def)
  have "run w_two_windows s_time_stream [] = (fst (run w_two_windows s_time_stream []),
      fst (snd (run w_two_windows s_time_stream [])),
      snd (snd (run w_two_windows s_time_stream [])))" by simp
  from streamed_output_accumulates [OF stream this]
  obtain ls where ls: "snd (snd (run w_two_windows s_time_stream [])) = [] @ ls"
    "fst (run w_two_windows s_time_stream []) = Inr () \<and> concat (map launch_text ls) \<noteq> []
        \<longrightarrow> output_of (fst (snd (run w_two_windows s_time_stream [])))
            = Inr (concat (map launch_text ls))"
    by blast
  have m: "map launch_text ls = [''Please use a larger time window'',
      ''Please use a larger time window'', ''Throughput: 120 infer/sec'']"
    using texts ls(1) by simp
  have "output_of (fst (snd (run w_two_windows s_time_stream [])))
     = Inr (''Please use a larger time window'' @ ''Please use a larger time window''
            @ ''Throughput: 120 infer/sec'')"
    using ls(2) res m by simp
  with second show ?thesis by simp
qed


section \<open>Failures the classifier gets wrong\<close>

text \<open>
  Claim C1, at an input where the code departs from it.  A buffered run whose process
  exits with status 1 and prints exactly "Failed to obtain stable measurement": the first
  \<open>find\<close> returns 0, which counts as false, the second message is absent, so the
  failure is not classified as retryable.  The run ends at once with the "failed with exit
  status" exception after one process, and the request count keeps its value 50.
\<close>

theorem stable_message_at_start_is_fatal:
  "fst (run w_stable_first s_count [])
     = Inl (ModelNavigatorException (RunFailed
         [''perf_analyzer'', ''-m'', ''resnet'', ''--measurement-request-count'', ''50''] 1
         (Some ''Failed to obtain stable measurement'')))
   \<and> length (snd (snd (run w_stable_first s_count []))) = 1
   \<and> pa_config (fst (snd (run w_stable_first s_count []))) ''measurement-request-count'' = PyInt 50"
  by code_simp


text \<open>
  Claim C2, at an input where the code departs from it.  A buffered run whose processes
  exit with status 1 and print "error: failed to connect to server", a text with neither
  message: the first \<open>find\<close> returns -1, which counts as true, so every failure is
  classified as retryable.  The run starts 10 processes, raises the request count from 50
  to 550 and ends with the retry-ceiling exception.
\<close>

theorem other_failure_is_retried:
  "fst (run w_refused s_count []) = Inl (ModelNavigatorException (NoValidRequests 10))
   \<and> length (snd (snd (run w_refused s_count []))) = 10
   \<and> pa_config (fst (snd (run w_refused s_count []))) ''measurement-request-count'' = PyInt 550"
  by code_simp


text \<open>
  Claim C4, at an input where the code departs from it.  In the streamed mode a process
  that runs into the time limit is reported by the \<open>timeout\<close> utility as exit status
  124, which reaches the same handler as any other failure: with no output the failure is
  classified as retryable, the request count goes from 50 to 100 and a second process is
  started, which here succeeds.  In the buffered mode the same world ends the run at once
  with \<open>TimeoutExpired\<close> after one process.
\<close>

theorem streamed_timeout_is_retried:
  "fst (run w_timeout_first s_count_stream []) = Inr ()
   \<and> map l_result (snd (snd (run w_timeout_first s_count_stream [])))
       = [TimedOut [], Exited 0 [''Throughput: 120 infer/sec'']]
   \<and> pa_config (fst (snd (run w_timeout_first s_count_stream []))) ''measurement-request-count''
       = PyInt 100
   \<and> fst (run w_timeout_first s_count [])
       = Inl (TimeoutExpired
           [''perf_analyzer'', ''-m'', ''resnet'', ''--measurement-request-count'', ''50''] 30)
   \<and> map l_result (snd (snd (run w_timeout_first s_count []))) = [TimedOut []]"
  by code_simp


section \<open>The derived average latency\<close>

text \<open>
  Claim C8.  The average latency of a row is the sum of its eight latency components
  "Client Send", "Network+Server Send/Recv", "Server Queue", "Server Compute", "Server
  Compute Input", "Server Compute Infer", "Server Compute Output" and "Client Recv", an
  absent component counting as zero: whenever every component that is present converts to
  an integer the function returns that sum, and whenever it returns a value the value is
  that sum.  For the row with "Client Send" 10 and "Server Queue" 5 and nothing else the
  result is 15.
\<close>

theorem average_latency_is_sum_of_components:
  "((\<forall>f\<in>set avg_sum_fields. \<forall>v. r f = Some v \<longrightarrow> (\<exists>n. py_int v = Inr n))
      \<longrightarrow> calculate_average_latency r =
          Inr (component r ''Client Send'' + component r ''Network+Server Send/Recv''
               + component r ''Server Queue'' + component r ''Server Compute''
               + component r ''Server Compute Input'' + component r ''Server Compute Infer''
               + component r ''Server Compute Output'' + component r ''Client Recv''))
   \<and> (calculate_average_latency r = Inr avg
      \<longrightarrow> avg = component r ''Client Send'' + component r ''Network+Server Send/Recv''
               + component r ''Server Queue'' + component r ''Server Compute''
               + component r ''Server Compute Input'' + component r ''Server Compute Infer''
               + component r ''Server Compute Output'' + component r ''Client Recv'')
   \<and> calculate_average_latency [''Client Send'' \<mapsto> PyInt 10, ''Server Queue'' \<mapsto> PyInt 5] = Inr 15"
proof (intro conjI impI)
  assume ok: "\<forall>f\<in>set avg_sum_fields. \<forall>v. r f = Some v \<longrightarrow> (\<exists>n. py_int v = Inr n)"
  have "\<forall>v\<in>set (map (\<lambda>f. dict_get r f (PyInt 0)) avg_sum_fields). \<exists>n. py_int v = Inr n"
  proof
    fix v assume "v \<in> set (map (\<lambda>f. dict_get r f (PyInt 0)) avg_sum_fields)"
    then obtain f where f: "f \<in> set avg_sum_fields" "v = dict_get r f (PyInt 0)" by auto
    show "\<exists>n. py_int v = Inr n"
    proof (cases "r f")
      case None
      with f(2) show ?thesis by (simp add: dict_get_def)
    next
      case (Some u)
      with ok f show ?thesis by (simp add: dict_get_def)
    qed
  qed
  from int_each_total [OF this] show "calculate_average_latency r =
          Inr (component r ''Client Send'' + component r ''Network+Server Send/Recv''
               + component r ''Server Queue'' + component r ''Server Compute''
               + component r ''Server Compute Input'' + component r ''Server Compute Infer''
               + component r ''Server Compute Output'' + component r ''Client Recv'')"
    by (simp only: calculate_average_latency_def sum.simps latency_sum)
next
  assume "calculate_average_latency r = Inr avg"
  then obtain ns where ns: "int_each (map (\<lambda>f. dict_get r f (PyInt 0)) avg_sum_fields) = Inr ns"
    "avg = sum_list ns"
    by (auto simp: calculate_average_latency_def split: sum.splits)
  from int_each_Inr [OF ns(1)] ns(2)
  have "avg = sum_list (map (\<lambda>v. case py_int v of Inl e \<Rightarrow> 0 | Inr n \<Rightarrow> n)
       (map (\<lambda>f. dict_get r f (PyInt 0)) avg_sum_fields))" by blast
  then show "avg = component r ''Client Send''
               + component r ''Network+Server Send/Recv''
               + component r ''Server Queue'' + component r ''Server Compute''
               + component r ''Server Compute Input'' + component r ''Server Compute Infer''
               + component r ''Server Compute Output'' + component r ''Client Recv''"
    by (simp only: latency_sum)
next
  show "calculate_average_latency [''Client Send'' \<mapsto> PyInt 10, ''Server Queue'' \<mapsto> PyInt 5] = Inr 15"
    by (simp add: calculate_average_latency_def avg_sum_fields_def dict_get_def)
qed

theorem average_latency_is_sum_of_components_witness:
  "calculate_average_latency [''Client Send'' \<mapsto> PyStr ''10'', ''Server Queue'' \<mapsto> PyStr ''5'']
     = Inr 15"
proof -
  let ?r = "[''Client Send'' \<mapsto> PyStr ''10'', ''Server Queue'' \<mapsto> PyStr ''5'']"
  have p10: "py_int (PyStr ''10'') = Inr 10" by code_simp
  have p5: "py_int (PyStr ''5'') = Inr 5" by code_simp
  have ok: "\<forall>f\<in>set avg_sum_fields. \<forall>v. ?r f = Some v \<longrightarrow> (\<exists>n. py_int v = Inr n)"
    using p10 p5 by (simp add: avg_sum_fields_def)
  have comps: "component ?r ''Client Send'' = 10" "component ?r ''Server Queue'' = 5"
    "component ?r ''Network+Server Send/Recv'' = 0" "component ?r ''Server Compute'' = 0"
    "component ?r ''Server Compute Input'' = 0" "component ?r ''Server Compute Infer'' = 0"
    "component ?r ''Server Compute Output'' = 0" "component ?r ''Client Recv'' = 0"
    using p10 p5 by (simp_all add: component_def)
  note average_latency_is_sum_of_components [of ?r, THEN conjunct1, THEN mp, OF ok]
  then show ?thesis by (simp only: comps) simp
qed


section \<open>The row appended for a batch size\<close>

text \<open>
  Claim C7 as stated fails: the row is built as \<open>{**row, **r, "avg latency": ...}\<close>, so
  a CSV column named "avg latency" is overwritten by the derived value (and a column named
  "batch_size" overwrites the batch size).  With a one-row file whose columns are "Client
  Send" = "10" and "avg latency" = "7", the appended row holds 10 under "avg latency", not
  the last row's "7".
\<close>

theorem last_row_values_counterexample:
  "appended_cell (update_performance_data [] 4 (Some csv_collision)) ''avg latency'' = Some (PyInt 10)
   \<and> last csv_collision ''avg latency'' = Some (PyStr ''7'')"
  by code_simp

text \<open>
  Claim C7, amended.  For a metrics file with at least one sample row, all rows having the
  same set of columns: the row the driver appends comes after the earlier results, holds
  the last row's value for every CSV column other than "avg latency", holds under "avg
  latency" the average latency derived from the last row, holds the batch size under
  "batch_size" unless the file has a column of that name, and has no other keys.
\<close>

theorem appended_row_holds_last_sample:
  assumes "reader \<noteq> []" and "\<forall>r\<in>set reader. dom r = cols"
    and "update_performance_data results batch_size (Some reader) = Inr results'"
  shows "\<exists>row avg. results' = results @ [row]
           \<and> calculate_average_latency (last reader) = Inr avg
           \<and> (\<forall>k\<in>cols. k \<noteq> ''avg latency'' \<longrightarrow> row k = last reader k)
           \<and> row ''avg latency'' = Some (PyInt avg)
           \<and> (''batch_size'' \<notin> cols \<longrightarrow> row ''batch_size'' = Some (PyInt batch_size))
           \<and> dom row = cols \<union> {''batch_size'', ''avg latency''}"
proof -
  from assms(3) obtain row where row:
    "merge_rows [''batch_size'' \<mapsto> PyInt batch_size] reader = Inr row" "results' = results @ [row]"
    by (auto simp: update_performance_data_def Let_def split: sum.splits)
  from merge_rows_shared [OF row(1) assms(1,2)] obtain avg where avg:
    "calculate_average_latency (last reader) = Inr avg"
    "row = (\<lambda>k. if k = ''avg latency'' then Some (PyInt avg)
                 else if k \<in> cols then last reader k
                 else [''batch_size'' \<mapsto> PyInt batch_size] k)"
    by blast
  have "dom (last reader) = cols" using assms(1,2) by simp
  then have present: "\<And>k. k \<in> cols \<Longrightarrow> last reader k \<noteq> None" by auto
  have a: "\<forall>k\<in>cols. k \<noteq> ''avg latency'' \<longrightarrow> row k = last reader k" using avg(2) by simp
  have b: "row ''avg latency'' = Some (PyInt avg)" using avg(2) by simp
  have c: "''batch_size'' \<notin> cols \<longrightarrow> row ''batch_size'' = Some (PyInt batch_size)"
    using avg(2) by simp
  have d: "dom row = cols \<union> {''batch_size'', ''avg latency''}"
    using avg(2) present by (auto simp: dom_def split: if_splits)
  from row(2) avg(1) a b c d show ?thesis by blast
qed

theorem appended_row_holds_last_sample_witness:
  "appended_cell (update_performance_data [] 4 (Some csv_two_samples)) ''Client Send''
     = Some (PyStr ''12'')
   \<and> appended_cell (update_performance_data [] 4 (Some csv_two_samples)) ''avg latency''
     = Some (PyInt 19)
   \<and> appended_cell (update_performance_data [] 4 (Some csv_two_samples)) ''batch_size''
     = Some (PyInt 4)"
proof -
  let ?cols = "{''Concurrency'', ''Client Send'', ''Server Queue''}"
  have ne: "csv_two_samples \<noteq> []" by (simp add: csv_two_samples_def)
  have cols: "\<forall>r\<in>set csv_two_samples. dom r = ?cols"
    by (simp add: csv_two_samples_def insert_commute)
  have c1: "calculate_average_latency [''Concurrency'' \<mapsto> PyStr ''1'',
      ''Client Send'' \<mapsto> PyStr ''10'', ''Server Queue'' \<mapsto> PyStr ''5''] = Inr 15" by code_simp
  have c2: "calculate_average_latency [''Concurrency'' \<mapsto> PyStr ''2'',
      ''Client Send'' \<mapsto> PyStr ''12'', ''Server Queue'' \<mapsto> PyStr ''7''] = Inr 19" by code_simp
  have "\<exists>res. update_performance_data [] 4 (Some csv_two_samples) = Inr res"
    by (simp add: update_performance_data_def csv_two_samples_def c1 c2)
  then obtain res where res: "update_performance_data [] 4 (Some csv_two_samples) = Inr res" ..
  from appended_row_holds_last_sample [OF ne cols res] obtain row avg where row:
    "res = [] @ [row]
     \<and> calculate_average_latency (last csv_two_samples) = Inr avg
     \<and> (\<forall>k\<in>?cols. k \<noteq> ''avg latency'' \<longrightarrow> row k = last csv_two_samples k)
     \<and> row ''avg latency'' = Some (PyInt avg)
     \<and> (''batch_size'' \<notin> ?cols \<longrightarrow> row ''batch_size'' = Some (PyInt 4))
     \<and> dom row = ?cols \<union> {''batch_size'', ''avg latency''}"
    by (elim exE) (rule that, assumption)
  have l1: "last csv_two_samples ''Client Send'' = Some (PyStr ''12'')" by code_simp
  have l2: "calculate_average_latency (last csv_two_samples) = Inr 19" by code_simp
  have r1: "res = [row]" using row by simp
  have r2: "avg = 19" using row l2 by simp
  have r3: "\<forall>k\<in>?cols. k \<noteq> ''avg latency'' \<longrightarrow> row k = last csv_two_samples k"
    using row by (elim conjE)
  have "''Client Send'' \<in> ?cols" by simp
  with r3 have "''Client Send'' \<noteq> ''avg latency'' \<longrightarrow> row ''Client Send'' = last csv_two_samples ''Client Send''"
    by (rule bspec)
  then have a: "row ''Client Send'' = Some (PyStr ''12'')" using l1 by simp
  have b: "row ''avg latency'' = Some (PyInt 19)" using row r2 by (elim conjE) simp
  have "''batch_size'' \<notin> ?cols \<longrightarrow> row ''batch_size'' = Some (PyInt 4)"
    using row by (elim conjE)
  then have c: "row ''batch_size'' = Some (PyInt 4)" by simp
  show ?thesis using a b c by (simp add: res r1 appended_cell_def)
qed


section \<open>The sweep never reaches the controller\<close>

text \<open>
  Claim C5, at every input where the code departs from it.  The driver constructs the
  controller as \<open>PerfAnalyzer(perf_config, stream_output=True)\<close>, without the required
  \<open>timeout\<close>.  So for any non-empty list of batch sizes (and a server address that
  parses) the sweep ends in a \<open>TypeError\<close> at the first batch size, before any process is
  started: the controller is never invoked, nothing is logged, and the exception is not
  the \<open>ModelNavigatorException\<close> that the driver turns into exit status 1.
\<close>

theorem driver_cannot_construct_the_controller:
  assumes "parse_server_url tk (server_url opts) = Inr (protocol, host, port)"
    and "batch_sizes \<noteq> []"
  shows "offline_performance tk w model_name batch_sizes opts st = (Inl TypeError, st)"
  using assms
  by (cases batch_sizes)
    (simp_all add: offline_performance_def batch_step_def PerfAnalyzer_init_def Let_def)

theorem driver_cannot_construct_the_controller_witness:
  "offline_performance tk_local w_silent ''resnet'' [8, 2, 4] opts_default st_empty
     = (Inl TypeError, st_empty)"
  using driver_cannot_construct_the_controller
    [of tk_local opts_default "''http''" "''localhost''" 8000 "[8, 2, 4]" w_silent "''resnet''" st_empty]
  by (simp add: tk_local_def)


section \<open>The output accessor\<close>

text \<open>
  Claim C10.  \<open>output()\<close> raises the "without calling run first" exception exactly when
  the stored output is unset or empty.  In particular a run, buffered or streamed, whose
  first process exits with status 0 and writes no text completes successfully, and
  \<open>output()\<close> raises afterwards instead of returning the empty text.
\<close>

theorem output_raises_on_empty_or_unset:
  "(output_of s = Inl (ModelNavigatorException OutputBeforeRun)
      \<longleftrightarrow> (pa_output s = None \<or> pa_output s = Some ''''))
   \<and> (proc w (length tr) (argv_for w s) = Exited 0 ls \<and> concat ls = ''''
        \<longrightarrow> fst (run w s tr) = Inr ()
            \<and> output_of (fst (snd (run w s tr))) = Inl (ModelNavigatorException OutputBeforeRun))"
proof (intro conjI impI)
  show "(output_of s = Inl (ModelNavigatorException OutputBeforeRun))
      = (pa_output s = None \<or> pa_output s = Some '''')"
    by (auto simp: output_of_def split: option.splits)
next
  assume a: "proc w (length tr) (argv_for w s) = Exited 0 ls \<and> concat ls = ''''"
  define s0 where "s0 = (if pa_stream_output s then s\<lparr>pa_output := Some ''''\<rparr> else s)"
  have argv0: "argv_for w s0 = argv_for w s"
    by (rule argv_for_cong) (simp_all add: s0_def)
  have p: "proc w (length tr) (argv_for w s0) = Exited 0 ls" using a by (simp add: argv0)
  have acc: "pa_stream_output s0 \<longrightarrow> pa_output s0 = Some ''''" by (simp add: s0_def)
  have "run w s tr = run_loop (Suc 9) w s0 tr"
    by (simp add: run_def MAX_INTERVAL_CHANGES_def s0_def)
  also have "\<dots> = (Inr (), s0\<lparr>pa_output := Some (if pa_stream_output s0 then '''' @ concat ls
      else concat ls)\<rparr>, tr @ [Launch (argv_for w s0) (Exited 0 ls) None])"
    by (rule run_loop_step_ok [OF p acc])
  finally have r: "run w s tr = (Inr (), s0\<lparr>pa_output := Some ''''\<rparr>,
      tr @ [Launch (argv_for w s0) (Exited 0 ls) None])"
    using a by simp
  show "fst (run w s tr) = Inr ()" by (simp add: r)
  show "output_of (fst (snd (run w s tr))) = Inl (ModelNavigatorException OutputBeforeRun)"
    by (simp add: r output_of_def)
qed

theorem output_raises_on_empty_or_unset_witness:
  "fst (run w_silent s_count []) = Inr ()
   \<and> output_of (fst (snd (run w_silent s_count []))) = Inl (ModelNavigatorException OutputBeforeRun)"
  using output_raises_on_empty_or_unset [of s_count w_silent "[]" "[]"]
  by (simp add: w_silent_def)


end
